theory Spec2Isabelle
  imports Main
begin

section \<open>Common vocabulary\<close>

text \<open>
  An awaited call either resolves with a value or rejects with an \<open>Error\<close> whose
  \<open>message\<close> is a string; a synchronous \<open>throw new Error(msg)\<close> is the same value.
\<close>

datatype 'a outcome = Returned 'a | Threw string

text \<open>\<open>String.prototype.startsWith\<close> and \<open>String.prototype.includes\<close>.\<close>

fun startsWith :: "string \<Rightarrow> string \<Rightarrow> bool" where
  "startsWith s [] = True"
| "startsWith [] (p # ps) = False"
| "startsWith (c # cs) (p # ps) = (c = p \<and> startsWith cs ps)"

fun str_includes :: "string \<Rightarrow> string \<Rightarrow> bool" where
  "str_includes [] sub = (sub = [])"
| "str_includes (c # cs) sub = (startsWith (c # cs) sub \<or> str_includes cs sub)"

text \<open>\<open>Array.prototype.join\<close> on strings.\<close>

fun join :: "string \<Rightarrow> string list \<Rightarrow> string" where
  "join sep [] = []"
| "join sep [x] = x"
| "join sep (x # y # ys) = x @ sep @ join sep (y # ys)"

text \<open>
  \<open>Array.prototype.slice(start)\<close> for an integer \<open>start\<close>: a negative start counts from
  the end and is clamped at the front of the array, a start beyond the end gives the
  empty array.
\<close>

definition slice_from :: "int \<Rightarrow> 'a list \<Rightarrow> 'a list" where
  "slice_from start xs =
     (if start < 0 then drop (nat (max (int (length xs) + start) 0)) xs
      else drop (nat start) xs)"

text \<open>Truthiness of an optional number: \<open>undefined\<close>, \<open>null\<close> and \<open>0\<close> are falsy.\<close>

definition truthy_nat :: "nat option \<Rightarrow> bool" where
  "truthy_nat a = (a \<noteq> None \<and> a \<noteq> Some 0)"

text \<open>Decimal rendering of a number inside a template literal.\<close>

fun digit_char :: "nat \<Rightarrow> char" where
  "digit_char n = char_of (48 + n)"

fun show_nat :: "nat \<Rightarrow> string" where
  "show_nat n = (if n < 10 then [digit_char n] else show_nat (n div 10) @ [digit_char (n mod 10)])"

text \<open>JSON values carried through the bridge; JS numbers are represented by integers.\<close>

datatype json =
    JNull
  | JBool bool
  | JNum int
  | JStr string
  | JArr "json list"
  | JObj "(string \<times> json) list"

section \<open>Background service worker: debugger sessions and event buffers\<close>

subsection \<open>The browser as seen by the extension\<close>

record tab =
  t_id :: nat
  t_windowId :: nat

record exception_details =
  exc_description :: "string option"
  exc_text :: "string option"

text \<open>
  The page expressions that the service worker builds as template strings, kept symbolic:
  the wrapper of \<open>cdpEvaluate\<close> around the caller's script, the locator of \<open>cdpClick\<close>,
  the focus-and-clear expression of \<open>cdpType\<close> and the scroll expression of \<open>cdpScroll\<close>.
\<close>

datatype page_expression =
    Eval_wrapper string
  | Locate_center string
  | Focus_and_clear string bool
  | Scroll_into_view string

datatype cdp_method =
    Runtime_enable
  | Network_enable nat
  | Runtime_evaluate page_expression "bool option" "int option"
  | Input_dispatchMouseEvent string "int option" "int option" "string option" "int option" "int option" "int option"
  | Input_insertText string
  | Input_dispatchKeyEvent string string
  | Page_captureScreenshot string int
  | DOM_getDocument
  | DOM_querySelector nat string
  | DOM_setFileInputFiles nat "string list"

text \<open>
  The object a protocol command resolves with, by the fields that the commands read:
  \<open>exceptionDetails\<close> and \<open>result.value\<close> of an evaluation, \<open>data\<close> of a screenshot,
  \<open>nodeId\<close> of a query and \<open>root.nodeId\<close> of a document. Absent fields are \<open>None\<close>.
\<close>

record cdp_result =
  exceptionDetails :: "exception_details option"
  result_value :: "json option"
  r_data :: "string option"
  r_nodeId :: "nat option"
  r_root_nodeId :: "nat option"

datatype call =
    Tabs_get nat
  | Tabs_query_active
  | Debugger_attach nat
  | Debugger_detach nat
  | Debugger_sendCommand nat cdp_method

text \<open>
  The browser answers every API call; an answer may depend on the calls made before it.
\<close>

record browser =
  tabs_get :: "call list \<Rightarrow> nat \<Rightarrow> tab option outcome"
  tabs_query_active :: "call list \<Rightarrow> tab list"
  debugger_attach :: "call list \<Rightarrow> nat \<Rightarrow> unit outcome"
  debugger_detach :: "call list \<Rightarrow> nat \<Rightarrow> unit outcome"
  debugger_sendCommand :: "call list \<Rightarrow> nat \<Rightarrow> cdp_method \<Rightarrow> cdp_result outcome"

subsection \<open>State of the service worker\<close>

record console_entry =
  ce_type :: string
  ce_text :: "string option"
  ce_timestamp :: int

record network_entry =
  ne_url :: "string option"
  ne_status :: "int option"
  ne_mimeType :: "string option"
  ne_requestId :: string

text \<open>
  \<open>attachedTabs\<close>, \<open>consoleMessages\<close> and \<open>networkRequests\<close> are the three globals of the
  service worker. \<open>calls\<close> records the browser API calls made so far, oldest first.
\<close>

record bg_state =
  attachedTabs :: "nat set"
  consoleMessages :: "nat \<rightharpoonup> console_entry list"
  networkRequests :: "nat \<rightharpoonup> network_entry list"
  calls :: "call list"

definition bg_init :: bg_state where
  "bg_init = \<lparr>attachedTabs = {}, consoleMessages = Map.empty, networkRequests = Map.empty, calls = []\<rparr>"

definition record_call :: "call \<Rightarrow> bg_state \<Rightarrow> bg_state" where
  "record_call c s = s\<lparr>calls := calls s @ [c]\<rparr>"

definition chrome_tabs_get :: "browser \<Rightarrow> nat \<Rightarrow> bg_state \<Rightarrow> tab option outcome \<times> bg_state" where
  "chrome_tabs_get b tabId s = (tabs_get b (calls s) tabId, record_call (Tabs_get tabId) s)"

definition chrome_tabs_query_active :: "browser \<Rightarrow> bg_state \<Rightarrow> tab list \<times> bg_state" where
  "chrome_tabs_query_active b s = (tabs_query_active b (calls s), record_call Tabs_query_active s)"

definition chrome_debugger_attach :: "browser \<Rightarrow> nat \<Rightarrow> bg_state \<Rightarrow> unit outcome \<times> bg_state" where
  "chrome_debugger_attach b tabId s = (debugger_attach b (calls s) tabId, record_call (Debugger_attach tabId) s)"

definition chrome_debugger_detach :: "browser \<Rightarrow> nat \<Rightarrow> bg_state \<Rightarrow> unit outcome \<times> bg_state" where
  "chrome_debugger_detach b tabId s = (debugger_detach b (calls s) tabId, record_call (Debugger_detach tabId) s)"

definition cdpSend :: "browser \<Rightarrow> nat \<Rightarrow> cdp_method \<Rightarrow> bg_state \<Rightarrow> cdp_result outcome \<times> bg_state" where
  "cdpSend b tabId method s =
     (debugger_sendCommand b (calls s) tabId method, record_call (Debugger_sendCommand tabId method) s)"

subsection \<open>Attach and detach\<close>

definition init_buffers :: "nat \<Rightarrow> bg_state \<Rightarrow> bg_state" where
  "init_buffers tabId s =
     (let s1 = (if consoleMessages s tabId = None
                then s\<lparr>consoleMessages := (consoleMessages s)(tabId \<mapsto> [])\<rparr> else s)
      in if networkRequests s1 tabId = None
         then s1\<lparr>networkRequests := (networkRequests s1)(tabId \<mapsto> [])\<rparr> else s1)"

text \<open>The body of the \<open>try\<close> block of \<open>ensureDebuggerAttached\<close>.\<close>

definition attach_and_enable :: "browser \<Rightarrow> nat \<Rightarrow> bg_state \<Rightarrow> unit outcome \<times> bg_state" where
  "attach_and_enable b tabId s =
     (case chrome_debugger_attach b tabId s of
        (Threw m, s1) \<Rightarrow> (Threw m, s1)
      | (Returned u, s1) \<Rightarrow>
          (let s2 = s1\<lparr>attachedTabs := insert tabId (attachedTabs s1)\<rparr> in
           case cdpSend b tabId Runtime_enable s2 of
             (Threw m, s3) \<Rightarrow> (Threw m, s3)
           | (Returned r, s3) \<Rightarrow>
               (case cdpSend b tabId (Network_enable 65536) s3 of
                  (Threw m, s4) \<Rightarrow> (Threw m, s4)
                | (Returned r', s4) \<Rightarrow> (Returned (), init_buffers tabId s4))))"

definition ensureDebuggerAttached :: "browser \<Rightarrow> nat \<Rightarrow> bg_state \<Rightarrow> unit outcome \<times> bg_state" where
  "ensureDebuggerAttached b tabId s =
     (if tabId \<in> attachedTabs s then (Returned (), s)
      else
        (case attach_and_enable b tabId s of
           (Returned u, s1) \<Rightarrow> (Returned (), s1)
         | (Threw m, s1) \<Rightarrow>
             if str_includes m ''Already attached''
             then (Returned (), s1\<lparr>attachedTabs := insert tabId (attachedTabs s1)\<rparr>)
             else (Threw (''Debugger attach failed: '' @ m), s1)))"

definition forget_tab :: "nat \<Rightarrow> bg_state \<Rightarrow> bg_state" where
  "forget_tab tabId s =
     s\<lparr>attachedTabs := attachedTabs s - {tabId},
       consoleMessages := (consoleMessages s)(tabId := None),
       networkRequests := (networkRequests s)(tabId := None)\<rparr>"

definition detachDebugger :: "browser \<Rightarrow> nat \<Rightarrow> bg_state \<Rightarrow> bg_state" where
  "detachDebugger b tabId s =
     (if tabId \<notin> attachedTabs s then s
      else (case chrome_debugger_detach b tabId s of (r, s1) \<Rightarrow> forget_tab tabId s1))"



subsection \<open>Event ingestion\<close>

record remote_object =
  ro_value :: "string option"
  ro_description :: "string option"

record response_info =
  ri_url :: "string option"
  ri_status :: "int option"
  ri_mimeType :: "string option"

text \<open>
  A debugger notification: the method with the fields of \<open>params\<close> that the listener reads.
  The value of a console argument is taken in its string form, as \<open>join\<close> renders it.
\<close>

datatype debugger_event =
    Runtime_consoleAPICalled string "remote_object list option" int
  | Runtime_exceptionThrown "exception_details option" int
  | Network_responseReceived "response_info option" string
  | Other_method string

definition arg_text :: "remote_object \<Rightarrow> string" where
  "arg_text a =
     (case ro_value a of Some v \<Rightarrow> v
      | None \<Rightarrow> (case ro_description a of Some d \<Rightarrow> d | None \<Rightarrow> []))"

definition console_entry_of :: "string \<Rightarrow> remote_object list option \<Rightarrow> int \<Rightarrow> console_entry" where
  "console_entry_of ty args ts =
     \<lparr>ce_type = ty, ce_text = map_option (\<lambda>as. join '' '' (map arg_text as)) args, ce_timestamp = ts\<rparr>"

definition exception_entry_of :: "exception_details option \<Rightarrow> int \<Rightarrow> console_entry" where
  "exception_entry_of details ts =
     \<lparr>ce_type = ''error'',
      ce_text = Some
        ((case details of None \<Rightarrow> ''undefined''
          | Some d \<Rightarrow> (case exc_text d of None \<Rightarrow> ''undefined'' | Some t \<Rightarrow> t))
         @ '': '' @
         (case details of None \<Rightarrow> []
          | Some d \<Rightarrow> (case exc_description d of None \<Rightarrow> [] | Some x \<Rightarrow> x))),
      ce_timestamp = ts\<rparr>"

definition network_entry_of :: "response_info option \<Rightarrow> string \<Rightarrow> network_entry" where
  "network_entry_of resp rid =
     \<lparr>ne_url = (case resp of None \<Rightarrow> None | Some r \<Rightarrow> ri_url r),
      ne_status = (case resp of None \<Rightarrow> None | Some r \<Rightarrow> ri_status r),
      ne_mimeType = (case resp of None \<Rightarrow> None | Some r \<Rightarrow> ri_mimeType r),
      ne_requestId = rid\<rparr>"

text \<open>\<open>map.get(tabId) || []\<close>: an absent buffer reads as the empty array.\<close>

definition buffer_of :: "(nat \<rightharpoonup> 'a list) \<Rightarrow> nat \<Rightarrow> 'a list" where
  "buffer_of m tabId = (case m tabId of None \<Rightarrow> [] | Some xs \<Rightarrow> xs)"

text \<open>\<open>if (xs.length > bound) xs.splice(0, xs.length - bound)\<close>.\<close>

definition truncate_front :: "nat \<Rightarrow> 'a list \<Rightarrow> 'a list" where
  "truncate_front bound xs = (if length xs > bound then drop (length xs - bound) xs else xs)"

text \<open>The \<open>chrome.debugger.onEvent\<close> listener, for a notification of tab \<open>tabId\<close>.\<close>

fun onEvent :: "nat \<Rightarrow> debugger_event \<Rightarrow> bg_state \<Rightarrow> bg_state" where
  "onEvent tabId (Runtime_consoleAPICalled ty args ts) s =
     (let msgs = buffer_of (consoleMessages s) tabId @ [console_entry_of ty args ts]
      in s\<lparr>consoleMessages := (consoleMessages s)(tabId \<mapsto> truncate_front 500 msgs)\<rparr>)"
| "onEvent tabId (Runtime_exceptionThrown details ts) s =
     (let msgs = buffer_of (consoleMessages s) tabId @ [exception_entry_of details ts]
      in s\<lparr>consoleMessages := (consoleMessages s)(tabId \<mapsto> msgs)\<rparr>)"
| "onEvent tabId (Network_responseReceived resp rid) s =
     (let reqs = buffer_of (networkRequests s) tabId @ [network_entry_of resp rid]
      in s\<lparr>networkRequests := (networkRequests s)(tabId \<mapsto> truncate_front 200 reqs)\<rparr>)"
| "onEvent tabId (Other_method m) s = s"

text \<open>A sequence of notifications, each with the tab it belongs to, in arrival order.\<close>

fun ingest :: "(nat \<times> debugger_event) list \<Rightarrow> bg_state \<Rightarrow> bg_state" where
  "ingest [] s = s"
| "ingest ((tabId, ev) # evs) s = ingest evs (onEvent tabId ev s)"

subsection \<open>Reading the buffers\<close>

text \<open>\<open>getActiveTab\<close>: a truthy \<open>tabId\<close> selects that tab, otherwise the active tab is used.\<close>

definition getActiveTab :: "browser \<Rightarrow> nat option \<Rightarrow> bg_state \<Rightarrow> tab outcome \<times> bg_state" where
  "getActiveTab b tabId s =
     (if truthy_nat tabId then
        (case chrome_tabs_get b (the tabId) s of
           (Threw m, s1) \<Rightarrow> (Threw m, s1)
         | (Returned None, s1) \<Rightarrow> (Threw (''Tab not found: '' @ show_nat (the tabId)), s1)
         | (Returned (Some t), s1) \<Rightarrow> (Returned t, s1))
      else
        (case chrome_tabs_query_active b s of
           ([], s1) \<Rightarrow> (Threw ''No active tab found'', s1)
         | (t # ts, s1) \<Rightarrow> (Returned t, s1)))"

text \<open>
  The parameters of \<open>readConsole\<close> and \<open>readNetwork\<close>; \<open>None\<close> is an absent field, which
  the destructuring replaces by its default.
\<close>

record read_params =
  rp_tabId :: "nat option"
  rp_clear :: "bool option"
  rp_limit :: "int option"

record console_reply =
  messages :: "console_entry list"
  cr_count :: nat

record network_reply =
  requests :: "network_entry list"
  nr_count :: nat

definition readConsole :: "browser \<Rightarrow> read_params \<Rightarrow> bg_state \<Rightarrow> console_reply outcome \<times> bg_state" where
  "readConsole b params s =
     (case getActiveTab b (rp_tabId params) s of
        (Threw m, s1) \<Rightarrow> (Threw m, s1)
      | (Returned t, s1) \<Rightarrow>
          (let msgs = buffer_of (consoleMessages s1) (t_id t);
               clear = (case rp_clear params of None \<Rightarrow> False | Some c \<Rightarrow> c);
               limit = (case rp_limit params of None \<Rightarrow> 100 | Some l \<Rightarrow> l);
               result = slice_from (- limit) msgs;
               s2 = (if clear then s1\<lparr>consoleMessages := (consoleMessages s1)(t_id t \<mapsto> [])\<rparr> else s1)
           in (Returned \<lparr>messages = result, cr_count = length result\<rparr>, s2)))"

definition readNetwork :: "browser \<Rightarrow> read_params \<Rightarrow> bg_state \<Rightarrow> network_reply outcome \<times> bg_state" where
  "readNetwork b params s =
     (case getActiveTab b (rp_tabId params) s of
        (Threw m, s1) \<Rightarrow> (Threw m, s1)
      | (Returned t, s1) \<Rightarrow>
          (let reqs = buffer_of (networkRequests s1) (t_id t);
               clear = (case rp_clear params of None \<Rightarrow> False | Some c \<Rightarrow> c);
               limit = (case rp_limit params of None \<Rightarrow> 50 | Some l \<Rightarrow> l);
               result = slice_from (- limit) reqs;
               s2 = (if clear then s1\<lparr>networkRequests := (networkRequests s1)(t_id t \<mapsto> [])\<rparr> else s1)
           in (Returned \<lparr>requests = result, nr_count = length result\<rparr>, s2)))"

section \<open>Command executor: native-protocol commands\<close>

text \<open>\<open>a || b\<close> on optional strings: the empty string is falsy.\<close>

definition or_else :: "string option \<Rightarrow> string option \<Rightarrow> string option" where
  "or_else a b = (if a = None \<or> a = Some [] then b else a)"

definition truthy_string :: "string option \<Rightarrow> bool" where
  "truthy_string a = (a \<noteq> None \<and> a \<noteq> Some [])"

fun truthy_json :: "json \<Rightarrow> bool" where
  "truthy_json JNull = False"
| "truthy_json (JBool v) = v"
| "truthy_json (JNum n) = (n \<noteq> 0)"
| "truthy_json (JStr t) = (t \<noteq> [])"
| "truthy_json (JArr xs) = True"
| "truthy_json (JObj kv) = True"

fun num_field :: "json \<Rightarrow> string \<Rightarrow> int option" where
  "num_field (JObj kv) k = (case map_of kv k of Some (JNum n) \<Rightarrow> Some n | _ \<Rightarrow> None)"
| "num_field v k = None"

subsection \<open>evaluate\<close>

record eval_params =
  ep_script :: string
  ep_awaitPromise :: "bool option"
  ep_timeout :: "int option"
  ep_tabId :: "nat option"

datatype eval_reply = Eval_error string | Eval_result json

definition evaluate_method :: "eval_params \<Rightarrow> cdp_method" where
  "evaluate_method params =
     Runtime_evaluate (Eval_wrapper (ep_script params))
       (Some (case ep_awaitPromise params of None \<Rightarrow> True | Some a \<Rightarrow> a))
       (Some (case ep_timeout params of None \<Rightarrow> 10000 | Some t \<Rightarrow> t))"

definition evaluate_reply :: "cdp_result \<Rightarrow> eval_reply" where
  "evaluate_reply r =
     (case exceptionDetails r of
        Some d \<Rightarrow>
          Eval_error (case or_else (or_else (exc_description d) (exc_text d)) (Some ''Evaluation error'') of
                        Some m \<Rightarrow> m | None \<Rightarrow> [])
      | None \<Rightarrow> Eval_result (case result_value r of None \<Rightarrow> JNull | Some v \<Rightarrow> v))"

text \<open>
  \<open>cdpEvaluate\<close> calls itself from its \<open>catch\<close> block, so it is a partial function:
  \<open>None\<close> means that the call never settles.
\<close>

partial_function (option) cdpEvaluate ::
  "browser \<Rightarrow> eval_params \<Rightarrow> bg_state \<Rightarrow> (eval_reply outcome \<times> bg_state) option" where
  "cdpEvaluate b params s =
     (case getActiveTab b (ep_tabId params) s of
        (Threw m, s1) \<Rightarrow> Some (Threw m, s1)
      | (Returned t, s1) \<Rightarrow>
          (case ensureDebuggerAttached b (t_id t) s1 of
             (Threw m, s2) \<Rightarrow> Some (Threw m, s2)
           | (Returned u, s2) \<Rightarrow>
               (case cdpSend b (t_id t) (evaluate_method params) s2 of
                  (Returned r, s3) \<Rightarrow> Some (Returned (evaluate_reply r), s3)
                | (Threw m, s3) \<Rightarrow>
                    if str_includes m ''not attached'' then
                      (case ensureDebuggerAttached b (t_id t)
                              (s3\<lparr>attachedTabs := attachedTabs s3 - {t_id t}\<rparr>) of
                         (Threw m', s4) \<Rightarrow> Some (Threw m', s4)
                       | (Returned u', s4) \<Rightarrow> cdpEvaluate b params s4)
                    else Some (Threw m, s3))))"

declare cdpEvaluate.simps [code]

text \<open>Counting the protocol calls of a run in the call log.\<close>

fun is_evaluate_call :: "call \<Rightarrow> bool" where
  "is_evaluate_call (Debugger_sendCommand tabId (Runtime_evaluate e a t)) = True"
| "is_evaluate_call c = False"

fun is_attach_call :: "call \<Rightarrow> bool" where
  "is_attach_call (Debugger_attach tabId) = True"
| "is_attach_call c = False"

definition evaluate_calls :: "call list \<Rightarrow> nat" where
  "evaluate_calls cs = length (filter is_evaluate_call cs)"

definition attach_calls :: "call list \<Rightarrow> nat" where
  "attach_calls cs = length (filter is_attach_call cs)"

subsection \<open>Native click, type and scroll\<close>

record click_params =
  cp_x :: "int option"
  cp_y :: "int option"
  cp_selector :: "string option"
  cp_button :: "string option"
  cp_clickCount :: "int option"
  cp_tabId :: "nat option"

record click_reply =
  clicked_x :: "int option"
  clicked_y :: "int option"

definition click_sequence ::
  "browser \<Rightarrow> nat \<Rightarrow> int option \<Rightarrow> int option \<Rightarrow> string \<Rightarrow> int \<Rightarrow> bg_state \<Rightarrow> click_reply outcome \<times> bg_state" where
  "click_sequence b tabId clickX clickY button clickCount s =
     (case cdpSend b tabId (Input_dispatchMouseEvent ''mouseMoved'' clickX clickY None None None None) s of
        (Threw m, s1) \<Rightarrow> (Threw m, s1)
      | (Returned r1, s1) \<Rightarrow>
          (case cdpSend b tabId
                  (Input_dispatchMouseEvent ''mousePressed'' clickX clickY (Some button) (Some clickCount) None None) s1 of
             (Threw m, s2) \<Rightarrow> (Threw m, s2)
           | (Returned r2, s2) \<Rightarrow>
               (case cdpSend b tabId
                       (Input_dispatchMouseEvent ''mouseReleased'' clickX clickY (Some button) (Some clickCount) None None) s2 of
                  (Threw m, s3) \<Rightarrow> (Threw m, s3)
                | (Returned r3, s3) \<Rightarrow> (Returned \<lparr>clicked_x = clickX, clicked_y = clickY\<rparr>, s3))))"

definition cdpClick :: "browser \<Rightarrow> click_params \<Rightarrow> bg_state \<Rightarrow> click_reply outcome \<times> bg_state" where
  "cdpClick b params s =
     (case getActiveTab b (cp_tabId params) s of
        (Threw m, s1) \<Rightarrow> (Threw m, s1)
      | (Returned t, s1) \<Rightarrow>
          (case ensureDebuggerAttached b (t_id t) s1 of
             (Threw m, s2) \<Rightarrow> (Threw m, s2)
           | (Returned u, s2) \<Rightarrow>
               (let button = (case cp_button params of None \<Rightarrow> ''left'' | Some x \<Rightarrow> x);
                    clickCount = (case cp_clickCount params of None \<Rightarrow> 1 | Some n \<Rightarrow> n)
                in if truthy_string (cp_selector params) \<and> (cp_x params = None \<or> cp_y params = None) then
                     (case cdpSend b (t_id t) (Runtime_evaluate (Locate_center (the (cp_selector params))) None None) s2 of
                        (Threw m, s3) \<Rightarrow> (Threw m, s3)
                      | (Returned coords, s3) \<Rightarrow>
                          (case result_value coords of
                             None \<Rightarrow> (Threw (''Element not found: '' @ the (cp_selector params)), s3)
                           | Some v \<Rightarrow>
                               if \<not> truthy_json v
                               then (Threw (''Element not found: '' @ the (cp_selector params)), s3)
                               else click_sequence b (t_id t) (num_field v ''x'') (num_field v ''y'')
                                      button clickCount s3))
                   else click_sequence b (t_id t) (cp_x params) (cp_y params) button clickCount s2)))"

record type_params =
  tp_selector :: "string option"
  tp_text :: string
  tp_clear :: "bool option"
  tp_pressEnter :: "bool option"
  tp_tabId :: "nat option"

record type_reply =
  tr_success :: bool
  tr_typed :: string

definition insert_text :: "browser \<Rightarrow> nat \<Rightarrow> type_params \<Rightarrow> bg_state \<Rightarrow> type_reply outcome \<times> bg_state" where
  "insert_text b tabId params s =
     (case cdpSend b tabId (Input_insertText (tp_text params)) s of
        (Threw m, s1) \<Rightarrow> (Threw m, s1)
      | (Returned r, s1) \<Rightarrow>
          if (case tp_pressEnter params of None \<Rightarrow> False | Some e \<Rightarrow> e) then
            (case cdpSend b tabId (Input_dispatchKeyEvent ''keyDown'' ''Enter'') s1 of
               (Threw m, s2) \<Rightarrow> (Threw m, s2)
             | (Returned r2, s2) \<Rightarrow>
                 (case cdpSend b tabId (Input_dispatchKeyEvent ''keyUp'' ''Enter'') s2 of
                    (Threw m, s3) \<Rightarrow> (Threw m, s3)
                  | (Returned r3, s3) \<Rightarrow> (Returned \<lparr>tr_success = True, tr_typed = tp_text params\<rparr>, s3)))
          else (Returned \<lparr>tr_success = True, tr_typed = tp_text params\<rparr>, s1))"

definition cdpType :: "browser \<Rightarrow> type_params \<Rightarrow> bg_state \<Rightarrow> type_reply outcome \<times> bg_state" where
  "cdpType b params s =
     (case getActiveTab b (tp_tabId params) s of
        (Threw m, s1) \<Rightarrow> (Threw m, s1)
      | (Returned t, s1) \<Rightarrow>
          (case ensureDebuggerAttached b (t_id t) s1 of
             (Threw m, s2) \<Rightarrow> (Threw m, s2)
           | (Returned u, s2) \<Rightarrow>
               if truthy_string (tp_selector params) then
                 (case cdpSend b (t_id t)
                         (Runtime_evaluate
                            (Focus_and_clear (the (tp_selector params))
                               (case tp_clear params of None \<Rightarrow> True | Some c \<Rightarrow> c))
                            (Some False) None) s2 of
                    (Threw m, s3) \<Rightarrow> (Threw m, s3)
                  | (Returned focused, s3) \<Rightarrow> insert_text b (t_id t) params s3)
               else insert_text b (t_id t) params s2))"

record scroll_params =
  sp_x :: "int option"
  sp_y :: "int option"
  sp_deltaX :: "int option"
  sp_deltaY :: "int option"
  sp_selector :: "string option"
  sp_tabId :: "nat option"

text \<open>Both replies of \<open>cdpScroll\<close> carry \<open>success: true\<close>.\<close>

datatype scroll_reply = Scrolled_to string | Scrolled int int

text \<open>\<open>v || d\<close> on a number with default \<open>0\<close> from the destructuring.\<close>

definition num_or :: "int option \<Rightarrow> int \<Rightarrow> int" where
  "num_or v d = (let n = (case v of None \<Rightarrow> 0 | Some k \<Rightarrow> k) in if n = 0 then d else n)"

definition cdpScroll :: "browser \<Rightarrow> scroll_params \<Rightarrow> bg_state \<Rightarrow> scroll_reply outcome \<times> bg_state" where
  "cdpScroll b params s =
     (case getActiveTab b (sp_tabId params) s of
        (Threw m, s1) \<Rightarrow> (Threw m, s1)
      | (Returned t, s1) \<Rightarrow>
          (case ensureDebuggerAttached b (t_id t) s1 of
             (Threw m, s2) \<Rightarrow> (Threw m, s2)
           | (Returned u, s2) \<Rightarrow>
               if truthy_string (sp_selector params) then
                 (case cdpSend b (t_id t) (Runtime_evaluate (Scroll_into_view (the (sp_selector params))) None None) s2 of
                    (Threw m, s3) \<Rightarrow> (Threw m, s3)
                  | (Returned found, s3) \<Rightarrow> (Returned (Scrolled_to (the (sp_selector params))), s3))
               else
                 (case cdpSend b (t_id t)
                         (Input_dispatchMouseEvent ''mouseWheel''
                            (Some (num_or (sp_x params) 100)) (Some (num_or (sp_y params) 100)) None None
                            (Some (num_or (sp_deltaX params) 0)) (Some (num_or (sp_deltaY params) 300))) s2 of
                    (Threw m, s3) \<Rightarrow> (Threw m, s3)
                  | (Returned r, s3) \<Rightarrow>
                      (Returned (Scrolled (case sp_deltaX params of None \<Rightarrow> 0 | Some k \<Rightarrow> k)
                                          (case sp_deltaY params of None \<Rightarrow> 0 | Some k \<Rightarrow> k)), s3))))"

subsection \<open>Native screenshot and upload\<close>







subsection \<open>Manual attach and detach, and the operations of the service worker\<close>






section \<open>Content script: DOM fallback click\<close>

text \<open>
  The document as the content script queries it: an element is a node handle, a query
  gives \<open>None\<close> when nothing matches.
\<close>

record document =
  querySelector :: "string \<Rightarrow> nat option"
  evaluate_xpath :: "string \<Rightarrow> nat option"
  elementFromPoint :: "int \<Rightarrow> int \<Rightarrow> nat option"

datatype dom_action = ScrollIntoView nat | Click nat

definition findElement :: "document \<Rightarrow> string \<Rightarrow> nat option" where
  "findElement doc selector =
     (if startsWith selector ''//'' \<or> startsWith selector ''(//'' then evaluate_xpath doc selector
      else querySelector doc selector)"

record dom_click_params =
  dc_selector :: string
  dc_x :: "int option"
  dc_y :: "int option"

datatype dom_click_reply = Clicked_coordinate | Clicked_selector string

definition clickElement :: "document \<Rightarrow> dom_click_params \<Rightarrow> dom_click_reply outcome \<times> dom_action list" where
  "clickElement doc params =
     (case (dc_x params, dc_y params) of
        (Some x, Some y) \<Rightarrow>
          (case elementFromPoint doc x y of
             Some el \<Rightarrow> (Returned Clicked_coordinate, [Click el])
           | None \<Rightarrow> (Threw (''No element at ('' @ (if x < 0 then ''-'' else []) @ show_nat (nat \<bar>x\<bar>)
                               @ '', '' @ (if y < 0 then ''-'' else []) @ show_nat (nat \<bar>y\<bar>) @ '')''), []))
      | _ \<Rightarrow>
          (case findElement doc (dc_selector params) of
             None \<Rightarrow> (Threw (''Element not found: '' @ dc_selector params), [])
           | Some el \<Rightarrow> (Returned (Clicked_selector (dc_selector params)), [ScrollIntoView el, Click el])))"

section \<open>Relay\<close>

text \<open>
  A JSON frame with the fields the relay and the in-browser endpoint read or write;
  an absent (or \<open>null\<close>) field is \<open>None\<close>. Request ids are natural numbers.
\<close>

record message =
  m_type :: "string option"
  m_id :: "nat option"
  m_command :: "string option"
  m_params :: "json option"
  m_result :: "json option"
  m_error :: "string option"

definition empty_message :: message where
  "empty_message = \<lparr>m_type = None, m_id = None, m_command = None, m_params = None,
                     m_result = None, m_error = None\<rparr>"

text \<open>The relay's "extension not connected" message, as the UTF-8 bytes of the source's literal.\<close>

definition not_connected_error :: string where
  "not_connected_error =
     [CHR 0x43, CHR 0x68, CHR 0x72, CHR 0x6F, CHR 0x6D, CHR 0x65, CHR 0x20, CHR 0xE6, CHR 0x8B,
      CHR 0xA1, CHR 0xE5, CHR 0xBC, CHR 0xB5, CHR 0xE6, CHR 0xA9, CHR 0x9F, CHR 0xE8, CHR 0x83,
      CHR 0xBD, CHR 0xE3, CHR 0x81, CHR 0x8C, CHR 0xE6, CHR 0x8E, CHR 0xA5, CHR 0xE7, CHR 0xB6,
      CHR 0x9A, CHR 0xE3, CHR 0x81, CHR 0x95, CHR 0xE3, CHR 0x82, CHR 0x8C, CHR 0xE3, CHR 0x81,
      CHR 0xA6, CHR 0xE3, CHR 0x81, CHR 0x84, CHR 0xE3, CHR 0x81, CHR 0xBE, CHR 0xE3, CHR 0x81,
      CHR 0x9B, CHR 0xE3, CHR 0x82, CHR 0x93]"

text \<open>
  A pending request holds what its \<open>resolve\<close> and \<open>reject\<close> continuations close over: the
  controller's socket and the controller's frame.
\<close>

record pending_request =
  p_clientWs :: nat
  p_message :: message

record relay_state =
  chromeExtension :: "nat option"
  pendingRequests :: "nat \<rightharpoonup> pending_request"
  requestId :: nat

definition relay_init :: relay_state where
  "relay_init = \<lparr>chromeExtension = None, pendingRequests = Map.empty, requestId = 0\<rparr>"

text \<open>
  What a handler does to the outside: a frame written to a socket, a timer armed for a
  request id with its delay in milliseconds, and the settling of the promise of a request.
\<close>

datatype relay_effect =
    Ws_send nat message
  | Set_timeout nat nat
  | Promise_resolve nat message
  | Promise_reject nat string

datatype relay_event =
    Ws_message nat "message outcome"
  | Ws_close nat
  | Timer_fired nat

definition handleCommand :: "nat \<Rightarrow> message \<Rightarrow> relay_state \<Rightarrow> relay_state \<times> relay_effect list" where
  "handleCommand clientWs msg s =
     (case chromeExtension s of
        None \<Rightarrow> (s, [Ws_send clientWs (empty_message\<lparr>m_id := m_id msg, m_error := Some not_connected_error\<rparr>)])
      | Some ext \<Rightarrow>
          (let rid = requestId s + 1;
               commandMessage = msg\<lparr>m_id := Some rid\<rparr>
           in (s\<lparr>requestId := rid,
                 pendingRequests := (pendingRequests s)(rid \<mapsto> \<lparr>p_clientWs = clientWs, p_message = msg\<rparr>)\<rparr>,
               [Set_timeout rid 30000, Ws_send ext commandMessage])))"

text \<open>The callback of the timer armed for request \<open>rid\<close>.\<close>

definition on_timeout :: "nat \<Rightarrow> relay_state \<Rightarrow> relay_state \<times> relay_effect list" where
  "on_timeout rid s =
     (case pendingRequests s rid of
        None \<Rightarrow> (s, [])
      | Some p \<Rightarrow>
          (s\<lparr>pendingRequests := (pendingRequests s)(rid := None)\<rparr>,
           [Promise_reject rid ''Request timeout'',
            Ws_send (p_clientWs p)
              (empty_message\<lparr>m_id := m_id (p_message p), m_error := Some ''Request timeout''\<rparr>)]))"

text \<open>\<open>message.id && pendingRequests.has(message.id)\<close>.\<close>

definition answers_pending :: "relay_state \<Rightarrow> message \<Rightarrow> bool" where
  "answers_pending s msg = (truthy_nat (m_id msg) \<and> pendingRequests s (the (m_id msg)) \<noteq> None)"

text \<open>The \<open>message\<close> handler of a socket \<open>ws\<close>, after \<open>JSON.parse\<close>.\<close>

definition on_message :: "nat \<Rightarrow> message outcome \<Rightarrow> relay_state \<Rightarrow> relay_state \<times> relay_effect list" where
  "on_message ws parsed s =
     (case parsed of
        Threw m \<Rightarrow> (s, [Ws_send ws (empty_message\<lparr>m_error := Some m\<rparr>)])
      | Returned msg \<Rightarrow>
          if m_type msg = Some ''connected'' then (s\<lparr>chromeExtension := Some ws\<rparr>, [])
          else if answers_pending s msg then
            (let rid = the (m_id msg); p = the (pendingRequests s rid)
             in (s\<lparr>pendingRequests := (pendingRequests s)(rid := None)\<rparr>,
                 [Promise_resolve rid msg, Ws_send (p_clientWs p) msg]))
          else if truthy_string (m_command msg) then handleCommand ws msg s
          else (s, []))"

definition on_close :: "nat \<Rightarrow> relay_state \<Rightarrow> relay_state" where
  "on_close ws s = (if chromeExtension s = Some ws then s\<lparr>chromeExtension := None\<rparr> else s)"

fun relay_step :: "relay_event \<Rightarrow> relay_state \<Rightarrow> relay_state \<times> relay_effect list" where
  "relay_step (Ws_message ws parsed) s = on_message ws parsed s"
| "relay_step (Ws_close ws) s = (on_close ws s, [])"
| "relay_step (Timer_fired rid) s = on_timeout rid s"

text \<open>The event loop: handlers run to completion, one event after the other.\<close>

fun relay_run :: "relay_event list \<Rightarrow> relay_state \<Rightarrow> relay_state \<times> relay_effect list" where
  "relay_run [] s = (s, [])"
| "relay_run (e # es) s =
     (case relay_step e s of (s1, out1) \<Rightarrow>
        (case relay_run es s1 of (s2, out2) \<Rightarrow> (s2, out1 @ out2)))"

fun settles :: "nat \<Rightarrow> relay_effect \<Rightarrow> bool" where
  "settles rid (Promise_resolve i m) = (i = rid)"
| "settles rid (Promise_reject i e) = (i = rid)"
| "settles rid eff = False"

section \<open>In-browser transport endpoint\<close>

text \<open>
  The endpoint awaits the service worker, and the service worker awaits the command
  executor. An awaited call that never settles is \<open>None\<close>; then the code after the
  \<open>await\<close> never runs.
\<close>

text \<open>
  The service worker's \<open>runtime.onMessage\<close> listener for a \<open>command\<close> message: it
  replies when the executor settles, and the executor's rejection becomes a reply object
  with an \<open>error\<close> field.
\<close>

definition onMessage_command :: "(message \<Rightarrow> json outcome option) \<Rightarrow> message \<Rightarrow> json option" where
  "onMessage_command executor data =
     (case executor data of
        None \<Rightarrow> None
      | Some (Returned r) \<Rightarrow> Some r
      | Some (Threw m) \<Rightarrow> Some (JObj [(''error'', JStr m)]))"

text \<open>
  \<open>chrome.runtime.sendMessage\<close> from the offscreen document: it rejects when the message
  cannot be delivered (\<open>Some\<close> failure message), otherwise it resolves with the listener's
  reply once that is sent.
\<close>

definition runtime_sendMessage ::
  "string option \<Rightarrow> (message \<Rightarrow> json outcome option) \<Rightarrow> message \<Rightarrow> json outcome option" where
  "runtime_sendMessage delivery_failure executor data =
     (case delivery_failure of
        Some m \<Rightarrow> Some (Threw m)
      | None \<Rightarrow> map_option Returned (onMessage_command executor data))"

text \<open>The \<open>ws.onmessage\<close> handler of the offscreen document: the frames it sends.\<close>

definition ws_onmessage :: "(message \<Rightarrow> json outcome option) \<Rightarrow> message outcome \<Rightarrow> message list" where
  "ws_onmessage sendMessage parsed =
     (case parsed of
        Threw m \<Rightarrow> [empty_message\<lparr>m_id := None, m_error := Some m\<rparr>]
      | Returned data \<Rightarrow>
          (case sendMessage data of
             None \<Rightarrow> []
           | Some (Returned result) \<Rightarrow> [empty_message\<lparr>m_id := m_id data, m_result := Some result\<rparr>]
           | Some (Threw m) \<Rightarrow> [empty_message\<lparr>m_id := None, m_error := Some m\<rparr>]))"

text \<open>
  The \<open>evaluate\<close> branch of the service worker's command router, \<open>return await
  cdpEvaluate(params)\<close>, with the reply object as JSON.
\<close>

fun eval_reply_json :: "eval_reply \<Rightarrow> json" where
  "eval_reply_json (Eval_error m) = JObj [(''error'', JStr m)]"
| "eval_reply_json (Eval_result v) = JObj [(''result'', v)]"

definition evaluate_branch :: "browser \<Rightarrow> eval_params \<Rightarrow> bg_state \<Rightarrow> json outcome option" where
  "evaluate_branch b params s =
     (case cdpEvaluate b params s of
        None \<Rightarrow> None
      | Some (Returned v, s1) \<Rightarrow> Some (Returned (eval_reply_json v))
      | Some (Threw m, s1) \<Rightarrow> Some (Threw m))"

section \<open>Inputs used in the examples\<close>

text \<open>Console notifications of one tab, given by type, arguments and timestamp.\<close>

definition console_events :: "nat \<Rightarrow> (string \<times> remote_object list option \<times> int) list \<Rightarrow> (nat \<times> debugger_event) list" where
  "console_events tabId cs = map (\<lambda>(ty, args, ts). (tabId, Runtime_consoleAPICalled ty args ts)) cs"

definition console_entries :: "(string \<times> remote_object list option \<times> int) list \<Rightarrow> console_entry list" where
  "console_entries cs = map (\<lambda>(ty, args, ts). console_entry_of ty args ts) cs"

definition log_events :: "nat \<Rightarrow> (string \<times> remote_object list option \<times> int) list" where
  "log_events n = map (\<lambda>i. (''log'', None, int i)) [0..<n]"

text \<open>A browser with one tab, number 7, in which every call succeeds.\<close>

definition demo_tab :: tab where
  "demo_tab = \<lparr>t_id = 7, t_windowId = 1\<rparr>"

definition demo_browser :: browser where
  "demo_browser =
     \<lparr>tabs_get = (\<lambda>h i. if i = 7 then Returned (Some demo_tab) else Threw ''No tab with given id''),
      tabs_query_active = (\<lambda>h. [demo_tab]),
      debugger_attach = (\<lambda>h i. Returned ()),
      debugger_detach = (\<lambda>h i. Returned ()),
      debugger_sendCommand = (\<lambda>h i m. Returned \<lparr>exceptionDetails = None, result_value = None, r_data = None, r_nodeId = None, r_root_nodeId = None\<rparr>)\<rparr>"

definition attached7 :: bg_state where
  "attached7 = snd (ensureDebuggerAttached demo_browser 7 bg_init)"

definition read_tab7 :: "bool \<Rightarrow> int \<Rightarrow> read_params" where
  "read_tab7 clear limit = \<lparr>rp_tabId = Some 7, rp_clear = Some clear, rp_limit = Some limit\<rparr>"

text \<open>An \<open>evaluate\<close> command for tab 7.\<close>

definition eval7 :: eval_params where
  "eval7 = \<lparr>ep_script = ''document.title'', ep_awaitPromise = None, ep_timeout = None, ep_tabId = Some 7\<rparr>"

definition not_attached_message :: string where
  "not_attached_message = ''Debugger is not attached to the tab with id: 7.''"

text \<open>A browser in which every \<open>Runtime.evaluate\<close> fails because the debugger is gone.\<close>

definition detaching_browser :: browser where
  "detaching_browser =
     demo_browser\<lparr>debugger_sendCommand :=
       (\<lambda>h i m. if is_evaluate_call (Debugger_sendCommand i m) then Threw not_attached_message
                 else Returned \<lparr>exceptionDetails = None, result_value = None, r_data = None, r_nodeId = None, r_root_nodeId = None\<rparr>)\<rparr>"

text \<open>A browser in which the first \<open>k\<close> calls of \<open>Runtime.evaluate\<close> fail that way.\<close>

definition flaky_browser :: "nat \<Rightarrow> browser" where
  "flaky_browser k =
     demo_browser\<lparr>debugger_sendCommand :=
       (\<lambda>h i m. if is_evaluate_call (Debugger_sendCommand i m) then
                   (if evaluate_calls h < k then Threw not_attached_message
                    else Returned \<lparr>exceptionDetails = None, result_value = Some (JNum 42), r_data = None, r_nodeId = None, r_root_nodeId = None\<rparr>)
                 else Returned \<lparr>exceptionDetails = None, result_value = None, r_data = None, r_nodeId = None, r_root_nodeId = None\<rparr>)\<rparr>"

text \<open>
  A browser whose page has no element for any selector: the replies of the page
  expressions of \<open>cdpType\<close>, \<open>cdpScroll\<close> and \<open>cdpClick\<close> in that case.
\<close>

definition empty_page_browser :: browser where
  "empty_page_browser =
     demo_browser\<lparr>debugger_sendCommand :=
       (\<lambda>h i m. case m of
           Runtime_evaluate (Focus_and_clear sel c) a t \<Rightarrow>
             Returned \<lparr>exceptionDetails =
                         Some \<lparr>exc_description = Some (''Error: Element not found: '' @ sel),
                               exc_text = Some ''Uncaught''\<rparr>,
                       result_value = None, r_data = None, r_nodeId = None, r_root_nodeId = None\<rparr>
         | Runtime_evaluate (Scroll_into_view sel) a t \<Rightarrow>
             Returned \<lparr>exceptionDetails = None, result_value = Some (JBool False), r_data = None, r_nodeId = None, r_root_nodeId = None\<rparr>
         | Runtime_evaluate (Locate_center sel) a t \<Rightarrow>
             Returned \<lparr>exceptionDetails = None, result_value = Some JNull, r_data = None, r_nodeId = None, r_root_nodeId = None\<rparr>
         | _ \<Rightarrow> Returned \<lparr>exceptionDetails = None, result_value = None, r_data = None, r_nodeId = None, r_root_nodeId = None\<rparr>)\<rparr>"

definition type_missing :: type_params where
  "type_missing = \<lparr>tp_selector = Some ''#missing'', tp_text = ''hello'', tp_clear = None,
                    tp_pressEnter = None, tp_tabId = Some 7\<rparr>"

definition scroll_missing :: scroll_params where
  "scroll_missing = \<lparr>sp_x = None, sp_y = None, sp_deltaX = None, sp_deltaY = None,
                      sp_selector = Some ''#missing'', sp_tabId = Some 7\<rparr>"

definition click_missing :: click_params where
  "click_missing = \<lparr>cp_x = None, cp_y = None, cp_selector = Some ''#missing'', cp_button = None,
                     cp_clickCount = None, cp_tabId = Some 7\<rparr>"

section \<open>Vocabulary for the relay\<close>

text \<open>The events of a controller frame and of a frame arriving as a response.\<close>

definition command_event :: "nat \<times> message \<Rightarrow> relay_event" where
  "command_event cm = Ws_message (fst cm) (Returned (snd cm))"

definition response_event :: "nat \<Rightarrow> message \<Rightarrow> relay_event" where
  "response_event ws r = Ws_message ws (Returned r)"

text \<open>The two error frames the relay writes to a controller.\<close>

definition timeout_error_frame :: "message \<Rightarrow> message" where
  "timeout_error_frame msg = empty_message\<lparr>m_id := m_id msg, m_error := Some ''Request timeout''\<rparr>"

definition not_connected_frame :: "message \<Rightarrow> message" where
  "not_connected_frame msg = empty_message\<lparr>m_id := m_id msg, m_error := Some not_connected_error\<rparr>"

text \<open>How often the promise of request \<open>rid\<close> is settled by a list of effects.\<close>

definition settle_count :: "nat \<Rightarrow> relay_effect list \<Rightarrow> nat" where
  "settle_count rid out = length (filter (settles rid) out)"

text \<open>
  Every pending id has been issued, and a request can still be settled only while it is
  pending or not issued yet.
\<close>

definition ids_issued :: "relay_state \<Rightarrow> bool" where
  "ids_issued s = (\<forall>i. pendingRequests s i \<noteq> None \<longrightarrow> i \<le> requestId s)"

definition may_settle :: "nat \<Rightarrow> relay_state \<Rightarrow> nat" where
  "may_settle rid s = (if pendingRequests s rid \<noteq> None \<or> requestId s < rid then 1 else 0)"

text \<open>Frames and relay states of the examples: socket 1 is the extension.\<close>

definition connected_frame :: message where
  "connected_frame = empty_message\<lparr>m_type := Some ''connected''\<rparr>"

definition navigate_frame :: message where
  "navigate_frame = empty_message\<lparr>m_command := Some ''navigate'',
                                   m_params := Some (JObj [(''url'', JStr ''https://example.com'')])\<rparr>"

definition result_frame :: "nat \<Rightarrow> message" where
  "result_frame rid = empty_message\<lparr>m_id := Some rid, m_result := Some (JObj [(''success'', JBool True)])\<rparr>"

definition relay_connected :: relay_state where
  "relay_connected = \<lparr>chromeExtension = Some 1, pendingRequests = Map.empty, requestId = 0\<rparr>"

definition three_commands :: "(nat \<times> message) list" where
  "three_commands = [(2, navigate_frame), (3, navigate_frame), (4, navigate_frame)]"

text \<open>A forwarded command, an executor that rejects it, and a delivery failure.\<close>

definition forwarded_frame :: message where
  "forwarded_frame = navigate_frame\<lparr>m_id := Some 5\<rparr>"

definition failing_executor :: "message \<Rightarrow> json outcome option" where
  "failing_executor data = Some (Threw ''Unknown command: navigate'')"

definition no_receiver :: string where
  "no_receiver = ''Could not establish connection. Receiving end does not exist.''"

text \<open>An executor whose \<open>evaluate\<close> command runs in a browser where the debugger stays detached.\<close>

definition stuck_executor :: "message \<Rightarrow> json outcome option" where
  "stuck_executor data = evaluate_branch detaching_browser eval7 bg_init"

section \<open>Vocabulary for sessions and requests\<close>


text \<open>An event that can settle request \<open>rid\<close>: its timer, or a frame carrying its id.\<close>

fun concerns :: "nat \<Rightarrow> relay_event \<Rightarrow> bool" where
  "concerns rid (Timer_fired i) = (i = rid)"
| "concerns rid (Ws_message ws (Returned m)) = (m_id m = Some rid)"
| "concerns rid e = False"

text \<open>
  A browser that reports the debugger of tab 7 as held by someone else, in the words of
  the browser's own error.
\<close>

definition occupied_message :: string where
  "occupied_message = ''Another debugger is already attached to the tab with id: 7.''"

definition occupied_browser :: browser where
  "occupied_browser = demo_browser\<lparr>debugger_attach := (\<lambda>h i. Threw occupied_message)\<rparr>"



text \<open>The entries that reads see for every tab, and a tab without any.\<close>

definition entries_view :: "bg_state \<Rightarrow> (nat \<Rightarrow> console_entry list) \<times> (nat \<Rightarrow> network_entry list)" where
  "entries_view s = (buffer_of (consoleMessages s), buffer_of (networkRequests s))"

definition no_entries :: "nat \<Rightarrow> bg_state \<Rightarrow> bool" where
  "no_entries tabId s = (buffer_of (consoleMessages s) tabId = [] \<and> buffer_of (networkRequests s) tabId = [])"




text \<open>The relay after the endpoint has gone and the one request has been settled.\<close>

definition relay_closed :: relay_state where
  "relay_closed = \<lparr>chromeExtension = None, pendingRequests = Map.empty, requestId = 1\<rparr>"

text \<open>An \<open>evaluate\<close> command as the relay forwards it.\<close>

definition evaluate_frame :: message where
  "evaluate_frame = empty_message\<lparr>m_id := Some 6, m_command := Some ''evaluate'',
       m_params := Some (JObj [(''script'', JStr ''document.title''), (''tabId'', JNum 7)])\<rparr>"
section \<open>Properties of the event buffers\<close>

subsection \<open>Truncation and ingestion\<close>

lemma truncate_front_eq: "truncate_front bound xs = drop (length xs - bound) xs"
  by (simp add: truncate_front_def)

lemma length_truncate_front: "length (truncate_front bound xs) \<le> bound"
  by (simp add: truncate_front_def)

lemma buffer_of_upd [simp]: "buffer_of (m(t \<mapsto> xs)) t = xs"
  by (simp add: buffer_of_def)

lemma record_call_fields [simp]:
  "attachedTabs (record_call c s) = attachedTabs s"
  "consoleMessages (record_call c s) = consoleMessages s"
  "networkRequests (record_call c s) = networkRequests s"
  "calls (record_call c s) = calls s @ [c]"
  by (simp_all add: record_call_def)

text \<open>Truncating after every insertion keeps the same entries as truncating once at the end.\<close>

lemma truncate_front_step:
  assumes "length xs \<le> n"
  shows "truncate_front n (truncate_front n (xs @ [a]) @ ys) = truncate_front n (xs @ a # ys)"
proof -
  define zs where "zs = xs @ [a]"
  define d where "d = length zs - n"
  have split: "xs @ a # ys = zs @ ys" by (simp add: zs_def)
  have d_le: "d \<le> length zs" by (simp add: d_def)
  have pre: "drop d zs @ ys = drop d (zs @ ys)" using d_le by simp
  have idx: "length (drop d zs @ ys) - n + d = length (zs @ ys) - n"
    using assms by (simp add: d_def zs_def)
  have "truncate_front n (truncate_front n zs @ ys) = drop (length (drop d zs @ ys) - n) (drop d (zs @ ys))"
    unfolding truncate_front_eq d_def [symmetric] pre [symmetric] ..
  also have "\<dots> = drop (length (drop d zs @ ys) - n + d) (zs @ ys)"
    by (simp only: drop_drop)
  also have "\<dots> = truncate_front n (zs @ ys)"
    unfolding idx truncate_front_eq ..
  finally show ?thesis unfolding split zs_def .
qed

text \<open>
  A run of \<open>Runtime.consoleAPICalled\<close> notifications leaves the most recent 500 entries,
  in arrival order: the oldest are the ones dropped.
\<close>

lemma ingest_console_events:
  "length (buffer_of (consoleMessages s) tabId) \<le> 500 \<Longrightarrow>
   buffer_of (consoleMessages (ingest (console_events tabId cs) s)) tabId =
     truncate_front 500 (buffer_of (consoleMessages s) tabId @ console_entries cs)"
proof (induction cs arbitrary: s)
  case Nil
  then show ?case by (simp add: console_events_def console_entries_def truncate_front_def)
next
  case (Cons c cs)
  obtain ty args ts where c: "c = (ty, args, ts)" by (cases c)
  let ?s1 = "onEvent tabId (Runtime_consoleAPICalled ty args ts) s"
  let ?b0 = "buffer_of (consoleMessages s) tabId"
  have b1: "buffer_of (consoleMessages ?s1) tabId = truncate_front 500 (?b0 @ [console_entry_of ty args ts])"
    by (simp add: Let_def)
  have len1: "length (buffer_of (consoleMessages ?s1) tabId) \<le> 500"
    unfolding b1 by (rule length_truncate_front)
  have "buffer_of (consoleMessages (ingest (console_events tabId cs) ?s1)) tabId =
        truncate_front 500 (buffer_of (consoleMessages ?s1) tabId @ console_entries cs)"
    by (rule Cons.IH [OF len1])
  also have "\<dots> = truncate_front 500 (?b0 @ console_entry_of ty args ts # console_entries cs)"
    unfolding b1 by (rule truncate_front_step [OF Cons.prems])
  finally show ?case by (simp add: c console_events_def console_entries_def)
qed

lemma ingest_append: "ingest (xs @ ys) s = ingest ys (ingest xs s)"
  by (induction xs arbitrary: s) auto

text \<open>The network buffer of every tab stays within 200 entries under any notifications.\<close>

lemma network_bound_step:
  "length (buffer_of (networkRequests s) t) \<le> 200 \<Longrightarrow>
   length (buffer_of (networkRequests (onEvent t' ev s)) t) \<le> 200"
  by (cases ev) (auto simp: Let_def buffer_of_def length_truncate_front)

lemma network_bound:
  "(\<And>t. length (buffer_of (networkRequests s) t) \<le> 200) \<Longrightarrow>
   length (buffer_of (networkRequests (ingest evs s)) t) \<le> 200"
proof (induction evs arbitrary: s t)
  case Nil then show ?case by simp
next
  case (Cons e evs)
  obtain t' ev where e: "e = (t', ev)" by (cases e)
  show ?case unfolding e using Cons.prems by (simp add: Cons.IH network_bound_step)
qed

lemma length_console_entries [simp]: "length (console_entries cs) = length cs"
  by (simp add: console_entries_def)

lemma length_log_events [simp]: "length (log_events n) = n"
  by (simp add: log_events_def)

lemma drop_console_entries: "drop k (console_entries cs) = console_entries (drop k cs)"
  by (simp add: console_entries_def drop_map)

text \<open>
  Claim C1. The console buffer of a tab is said to hold at most 500 entries after any
  sequence of console, exception and network notifications. The handler truncates the
  buffer after a \<open>Runtime.consoleAPICalled\<close> notification and after a
  \<open>Network.responseReceived\<close> notification, but not after \<open>Runtime.exceptionThrown\<close>:
  500 console notifications followed by one exception leave 501 entries in the console
  buffer of tab 7.
\<close>

theorem console_buffer_exceeds_bound:
  "length (buffer_of (consoleMessages
      (ingest (console_events 7 (log_events 500) @ [(7, Runtime_exceptionThrown None 500)]) bg_init)) 7)
     = 501"
proof -
  have "length (buffer_of (consoleMessages bg_init) 7) \<le> 500"
    by (simp add: bg_init_def buffer_of_def)
  from ingest_console_events [OF this, of "log_events 500"]
  show ?thesis
    by (simp add: ingest_append Let_def truncate_front_def)
qed

subsection \<open>Reading\<close>

lemma getActiveTab_cases:
  "snd (getActiveTab b x s) = record_call (Tabs_get (the x)) s \<or>
   snd (getActiveTab b x s) = record_call Tabs_query_active s"
proof (cases "truthy_nat x")
  case True
  then have "snd (getActiveTab b x s) = record_call (Tabs_get (the x)) s"
    unfolding getActiveTab_def chrome_tabs_get_def
    by (cases "tabs_get b (calls s) (the x)") (simp_all split: option.split)
  then show ?thesis ..
next
  case False
  then have "snd (getActiveTab b x s) = record_call Tabs_query_active s"
    unfolding getActiveTab_def chrome_tabs_query_active_def
    by (cases "tabs_query_active b (calls s)") simp_all
  then show ?thesis ..
qed

lemma getActiveTab_state:
  assumes "getActiveTab b x s = (r, s1)"
  shows "attachedTabs s1 = attachedTabs s \<and> consoleMessages s1 = consoleMessages s \<and>
         networkRequests s1 = networkRequests s"
proof -
  have "s1 = snd (getActiveTab b x s)" using assms by simp
  with getActiveTab_cases [of b x s] show ?thesis by auto
qed

lemma slice_from_recent: "0 < l \<Longrightarrow> slice_from (- l) xs = drop (length xs - nat l) xs"
proof -
  assume l: "0 < l"
  have "nat (max (int (length xs) + - l) 0) = length xs - nat l" using l by (simp add: max_def) linarith
  then show ?thesis using l by (simp add: slice_from_def)
qed

lemma attached7_eq:
  "attached7 = \<lparr>attachedTabs = {7}, consoleMessages = [7 \<mapsto> []], networkRequests = [7 \<mapsto> []],
                calls = [Debugger_attach 7, Debugger_sendCommand 7 Runtime_enable,
                         Debugger_sendCommand 7 (Network_enable 65536)]\<rparr>"
  by (simp add: attached7_def ensureDebuggerAttached_def attach_and_enable_def bg_init_def
        chrome_debugger_attach_def cdpSend_def demo_browser_def record_call_def init_buffers_def Let_def)

lemma getActiveTab_demo:
  "getActiveTab demo_browser (Some 7) s = (Returned demo_tab, record_call (Tabs_get 7) s)"
  by (simp add: getActiveTab_def truthy_nat_def chrome_tabs_get_def demo_browser_def)

lemma scenario_buffer:
  "buffer_of (consoleMessages (ingest (console_events 7 (log_events 600)) attached7)) 7 =
     console_entries (drop 100 (log_events 600))"
proof -
  have "length (buffer_of (consoleMessages attached7) 7) \<le> 500"
    by (simp add: attached7_eq buffer_of_def)
  from ingest_console_events [OF this, of "log_events 600"]
  show ?thesis
    by (simp add: attached7_eq buffer_of_def truncate_front_eq drop_console_entries)
qed

text \<open>
  Claim C7, as amended. For a read whose tab resolves and whose limit is positive (the
  default is 100 for the console and 50 for the network), \<open>readConsole\<close> and
  \<open>readNetwork\<close> return the most recent entries of the tab's buffer, as many as the limit
  or all of them when there are fewer, with their number as the count. Without
  \<open>clear: true\<close> the buffers are left as they were; with \<open>clear: true\<close> the whole buffer
  that was read is replaced by the empty one, whatever part of it was returned. The
  other kind of buffer is never touched.
\<close>

theorem read_recent_entries:
  assumes tab: "getActiveTab b (rp_tabId p) s = (Returned t, s1)"
      and pos: "0 < (case rp_limit p of None \<Rightarrow> 50 | Some l \<Rightarrow> l)"
  shows "fst (readConsole b p s) =
           Returned \<lparr>messages = drop (length (buffer_of (consoleMessages s) (t_id t))
                                      - nat (case rp_limit p of None \<Rightarrow> 100 | Some l \<Rightarrow> l))
                                 (buffer_of (consoleMessages s) (t_id t)),
                     cr_count = min (length (buffer_of (consoleMessages s) (t_id t)))
                                    (nat (case rp_limit p of None \<Rightarrow> 100 | Some l \<Rightarrow> l))\<rparr>
       \<and> consoleMessages (snd (readConsole b p s)) =
           (if rp_clear p = Some True then (consoleMessages s)(t_id t \<mapsto> []) else consoleMessages s)
       \<and> networkRequests (snd (readConsole b p s)) = networkRequests s
       \<and> fst (readNetwork b p s) =
           Returned \<lparr>requests = drop (length (buffer_of (networkRequests s) (t_id t))
                                      - nat (case rp_limit p of None \<Rightarrow> 50 | Some l \<Rightarrow> l))
                                 (buffer_of (networkRequests s) (t_id t)),
                     nr_count = min (length (buffer_of (networkRequests s) (t_id t)))
                                    (nat (case rp_limit p of None \<Rightarrow> 50 | Some l \<Rightarrow> l))\<rparr>
       \<and> networkRequests (snd (readNetwork b p s)) =
           (if rp_clear p = Some True then (networkRequests s)(t_id t \<mapsto> []) else networkRequests s)
       \<and> consoleMessages (snd (readNetwork b p s)) = consoleMessages s"
proof -
  note st = getActiveTab_state [OF tab]
  have c: "0 < (case rp_limit p of None \<Rightarrow> (100::int) | Some l \<Rightarrow> l)"
    using pos by (cases "rp_limit p") auto
  have n: "0 < (case rp_limit p of None \<Rightarrow> (50::int) | Some l \<Rightarrow> l)"
    using pos .
  have clr: "(case rp_clear p of None \<Rightarrow> False | Some c \<Rightarrow> c) = (rp_clear p = Some True)"
    by (cases "rp_clear p") auto
  have rc: "readConsole b p s =
      (Returned \<lparr>messages = slice_from (- (case rp_limit p of None \<Rightarrow> 100 | Some l \<Rightarrow> l)) (buffer_of (consoleMessages s1) (t_id t)),
                 cr_count = length (slice_from (- (case rp_limit p of None \<Rightarrow> 100 | Some l \<Rightarrow> l)) (buffer_of (consoleMessages s1) (t_id t)))\<rparr>,
       if rp_clear p = Some True then s1\<lparr>consoleMessages := (consoleMessages s1)(t_id t \<mapsto> [])\<rparr> else s1)"
    unfolding readConsole_def tab clr by (simp add: Let_def)
  have rn: "readNetwork b p s =
      (Returned \<lparr>requests = slice_from (- (case rp_limit p of None \<Rightarrow> 50 | Some l \<Rightarrow> l)) (buffer_of (networkRequests s1) (t_id t)),
                 nr_count = length (slice_from (- (case rp_limit p of None \<Rightarrow> 50 | Some l \<Rightarrow> l)) (buffer_of (networkRequests s1) (t_id t)))\<rparr>,
       if rp_clear p = Some True then s1\<lparr>networkRequests := (networkRequests s1)(t_id t \<mapsto> [])\<rparr> else s1)"
    unfolding readNetwork_def tab clr by (simp add: Let_def)
  show ?thesis
    unfolding rc rn slice_from_recent [OF c] slice_from_recent [OF n]
    by (simp add: st min_def)
qed

text \<open>
  The scenario of the specification: tab 7 is attached, 600 console notifications
  arrive, and a read with limit 100 and without clearing returns the last 100 of them
  while the buffer keeps its 500 entries.
\<close>

theorem read_recent_entries_witness:
  "getActiveTab demo_browser (rp_tabId (read_tab7 False 100))
      (ingest (console_events 7 (log_events 600)) attached7)
     = (Returned demo_tab, record_call (Tabs_get 7) (ingest (console_events 7 (log_events 600)) attached7))
   \<and> 0 < (case rp_limit (read_tab7 False 100) of None \<Rightarrow> 50 | Some l \<Rightarrow> l)
   \<and> fst (readConsole demo_browser (read_tab7 False 100) (ingest (console_events 7 (log_events 600)) attached7))
       = Returned \<lparr>messages = console_entries (drop 500 (log_events 600)), cr_count = 100\<rparr>
   \<and> length (buffer_of (consoleMessages
         (snd (readConsole demo_browser (read_tab7 False 100)
                 (ingest (console_events 7 (log_events 600)) attached7)))) 7) = 500"
proof -
  let ?s = "ingest (console_events 7 (log_events 600)) attached7"
  have tab: "getActiveTab demo_browser (rp_tabId (read_tab7 False 100)) ?s
               = (Returned demo_tab, record_call (Tabs_get 7) ?s)"
    by (simp add: read_tab7_def getActiveTab_demo)
  have pos: "0 < (case rp_limit (read_tab7 False 100) of None \<Rightarrow> 50 | Some l \<Rightarrow> l)"
    by (simp add: read_tab7_def)
  have lim: "rp_limit (read_tab7 False 100) = Some 100" "rp_clear (read_tab7 False 100) = Some False"
    by (simp_all add: read_tab7_def)
  have tid: "t_id demo_tab = 7" by (simp add: demo_tab_def)
  from read_recent_entries [OF tab pos] tab pos
  show ?thesis
    unfolding lim tid scenario_buffer
    by (simp add: drop_console_entries scenario_buffer)
qed

text \<open>
  The claim as stated fails: with three entries buffered, a read with limit 1 and
  \<open>clear: true\<close> returns the last entry only and leaves the buffer empty, so the two
  entries outside the returned window are gone.
\<close>

theorem read_clear_counterexample:
  "fst (readConsole demo_browser (read_tab7 True 1) (ingest (console_events 7 (log_events 3)) attached7))
     = Returned \<lparr>messages = [console_entry_of ''log'' None 2], cr_count = 1\<rparr>
   \<and> buffer_of (consoleMessages (ingest (console_events 7 (log_events 3)) attached7)) 7
     = [console_entry_of ''log'' None 0, console_entry_of ''log'' None 1, console_entry_of ''log'' None 2]
   \<and> buffer_of (consoleMessages
        (snd (readConsole demo_browser (read_tab7 True 1) (ingest (console_events 7 (log_events 3)) attached7)))) 7
     = []"
proof -
  have ev: "log_events 3 = [(''log'', None, 0), (''log'', None, 1), (''log'', None, 2)]"
    by (simp add: log_events_def upt_rec)
  have buf: "buffer_of (consoleMessages (ingest (console_events 7 (log_events 3)) attached7)) 7
     = [console_entry_of ''log'' None 0, console_entry_of ''log'' None 1, console_entry_of ''log'' None 2]"
    unfolding ev by (simp add: console_events_def attached7_eq Let_def buffer_of_def truncate_front_def)
  show ?thesis
    unfolding buf
    by (simp add: readConsole_def read_tab7_def getActiveTab_demo Let_def buf slice_from_def demo_tab_def)
qed

lemma slice_from_Nil [simp]: "slice_from k [] = []"
  by (simp add: slice_from_def)

subsection \<open>Attach and detach\<close>

lemma ensure_attached_after:
  assumes "ensureDebuggerAttached b tabId s = (Returned (), s1)"
  shows "tabId \<in> attachedTabs s1"
proof (cases "tabId \<in> attachedTabs s")
  case True
  with assms show ?thesis by (simp add: ensureDebuggerAttached_def)
next
  case False
  show ?thesis
  proof (cases "chrome_debugger_attach b tabId s")
    case (Pair r sa)
    show ?thesis
    proof (cases r)
      case (Threw m)
      with Pair False assms show ?thesis
        by (auto simp: ensureDebuggerAttached_def attach_and_enable_def split: if_splits)
    next
      case (Returned u)
      let ?s2 = "sa\<lparr>attachedTabs := insert tabId (attachedTabs sa)\<rparr>"
      show ?thesis
      proof (cases "debugger_sendCommand b (calls ?s2) tabId Runtime_enable")
        case (Threw m)
        with Pair Returned False assms show ?thesis
          by (auto simp: ensureDebuggerAttached_def attach_and_enable_def cdpSend_def Let_def split: if_splits)
      next
        case r1: (Returned x)
        show ?thesis
        proof (cases "debugger_sendCommand b (calls ?s2 @ [Debugger_sendCommand tabId Runtime_enable]) tabId (Network_enable 65536)")
          case (Threw m)
          with Pair Returned r1 False assms show ?thesis
            by (auto simp: ensureDebuggerAttached_def attach_and_enable_def cdpSend_def Let_def split: if_splits)
        next
          case r2: (Returned y)
          with Pair Returned r1 False assms show ?thesis
            by (auto simp: ensureDebuggerAttached_def attach_and_enable_def cdpSend_def Let_def init_buffers_def split: if_splits)
        qed
      qed
    qed
  qed
qed

lemma detach_not_attached: "tabId \<notin> attachedTabs (detachDebugger b tabId s)"
  by (simp add: detachDebugger_def forget_tab_def chrome_debugger_detach_def)

text \<open>
  Attaching a tab that is recorded as attached returns at once and changes nothing,
  without a browser call. When the native attach fails with a message that contains
  \<open>Already attached\<close>, the attach succeeds and the tab is recorded as attached.
  Detaching a tab that is not recorded as attached changes nothing. Hence a second
  attach after a successful one, and a second detach, are no-ops.
\<close>

lemma attach_detach_noops:
  "(tabId \<in> attachedTabs s \<longrightarrow> ensureDebuggerAttached b tabId s = (Returned (), s))
   \<and> (tabId \<notin> attachedTabs s \<and> debugger_attach b (calls s) tabId = Threw m
        \<and> str_includes m ''Already attached'' \<longrightarrow>
        ensureDebuggerAttached b tabId s =
          (Returned (), (record_call (Debugger_attach tabId) s)\<lparr>attachedTabs := insert tabId (attachedTabs s)\<rparr>))
   \<and> (tabId \<notin> attachedTabs s \<longrightarrow> detachDebugger b tabId s = s)
   \<and> (ensureDebuggerAttached b tabId s = (Returned (), s1) \<longrightarrow>
        ensureDebuggerAttached b' tabId s1 = (Returned (), s1))
   \<and> detachDebugger b' tabId (detachDebugger b tabId s) = detachDebugger b tabId s"
proof (intro conjI impI)
  show "ensureDebuggerAttached b tabId s = (Returned (), s)" if "tabId \<in> attachedTabs s"
    using that by (simp add: ensureDebuggerAttached_def)
  show "ensureDebuggerAttached b tabId s =
          (Returned (), (record_call (Debugger_attach tabId) s)\<lparr>attachedTabs := insert tabId (attachedTabs s)\<rparr>)"
    if "tabId \<notin> attachedTabs s \<and> debugger_attach b (calls s) tabId = Threw m
        \<and> str_includes m ''Already attached''"
    using that by (simp add: ensureDebuggerAttached_def attach_and_enable_def chrome_debugger_attach_def)
  show "detachDebugger b tabId s = s" if "tabId \<notin> attachedTabs s"
    using that by (simp add: detachDebugger_def)
  show "ensureDebuggerAttached b' tabId s1 = (Returned (), s1)"
    if "ensureDebuggerAttached b tabId s = (Returned (), s1)"
    using ensure_attached_after [OF that] by (simp add: ensureDebuggerAttached_def)
  show "detachDebugger b' tabId (detachDebugger b tabId s) = detachDebugger b tabId s"
    using detach_not_attached [of tabId b s] by (simp add: detachDebugger_def [of b'])
qed

text \<open>
  Claim C8. A native "already attached" report during attach is said to be treated as
  success and recorded locally. The \<open>catch\<close> block looks for \<open>Already attached\<close> with a
  capital A, and the browser words its report "Another debugger is already attached to
  the tab with id: 7.": the report does contain "already attached", the test fails, the
  attach is surfaced as an error and the tab is not recorded.
\<close>

theorem native_already_attached_rejected:
  "str_includes occupied_message ''already attached''
   \<and> \<not> str_includes occupied_message ''Already attached''
   \<and> ensureDebuggerAttached occupied_browser 7 bg_init =
       (Threw (''Debugger attach failed: '' @ occupied_message),
        \<lparr>attachedTabs = {}, consoleMessages = Map.empty, networkRequests = Map.empty,
         calls = [Debugger_attach 7]\<rparr>)"
proof -
  have a: "str_includes occupied_message ''already attached''"
    by (simp add: occupied_message_def)
  have b: "\<not> str_includes occupied_message ''Already attached''"
    by (simp add: occupied_message_def)
  have c: "debugger_attach occupied_browser h i = Threw occupied_message" for h i
    by (simp add: occupied_browser_def)
  from a b show ?thesis
    by (simp add: ensureDebuggerAttached_def attach_and_enable_def chrome_debugger_attach_def c
          bg_init_def record_call_def)
qed

section \<open>Properties of the command executor\<close>

subsection \<open>evaluate\<close>

lemma na_includes: "str_includes not_attached_message ''not attached''"
  by (simp add: not_attached_message_def)


lemma evaluate_calls_simps [simp]:
  "evaluate_calls [] = 0"
  "evaluate_calls (c # cs) = (if is_evaluate_call c then 1 else 0) + evaluate_calls cs"
  "evaluate_calls (xs @ ys) = evaluate_calls xs + evaluate_calls ys"
  by (simp_all add: evaluate_calls_def)

lemma attach_calls_simps [simp]:
  "attach_calls [] = 0"
  "attach_calls (c # cs) = (if is_attach_call c then 1 else 0) + attach_calls cs"
  "attach_calls (xs @ ys) = attach_calls xs + attach_calls ys"
  by (simp_all add: attach_calls_def)

lemma getActiveTab_counts:
  assumes "getActiveTab b x s = (r, s1)"
  shows "evaluate_calls (calls s1) = evaluate_calls (calls s) \<and> attach_calls (calls s1) = attach_calls (calls s)"
proof -
  have "s1 = snd (getActiveTab b x s)" using assms by simp
  with getActiveTab_cases [of b x s] show ?thesis by auto
qed

lemma ensure_succeeds:
  assumes att: "\<And>h. debugger_attach b h tid = Returned ()"
      and en: "\<And>h. \<exists>r. debugger_sendCommand b h tid Runtime_enable = Returned r"
      and ne: "\<And>h. \<exists>r. debugger_sendCommand b h tid (Network_enable 65536) = Returned r"
  shows "\<exists>s1. ensureDebuggerAttached b tid s = (Returned (), s1) \<and> tid \<in> attachedTabs s1
           \<and> evaluate_calls (calls s1) = evaluate_calls (calls s)
           \<and> attach_calls (calls s1) = attach_calls (calls s) + (if tid \<in> attachedTabs s then 0 else 1)"
proof (cases "tid \<in> attachedTabs s")
  case True
  then show ?thesis by (simp add: ensureDebuggerAttached_def)
next
  case False
  let ?s1 = "record_call (Debugger_attach tid) s"
  let ?s2 = "?s1\<lparr>attachedTabs := insert tid (attachedTabs ?s1)\<rparr>"
  let ?s3 = "record_call (Debugger_sendCommand tid Runtime_enable) ?s2"
  let ?s4 = "record_call (Debugger_sendCommand tid (Network_enable 65536)) ?s3"
  obtain r1 where r1: "debugger_sendCommand b (calls ?s2) tid Runtime_enable = Returned r1"
    using en by blast
  obtain r2 where r2: "debugger_sendCommand b (calls ?s3) tid (Network_enable 65536) = Returned r2"
    using ne by blast
  have a1: "chrome_debugger_attach b tid s = (Returned (), ?s1)"
    by (simp only: chrome_debugger_attach_def att)
  have a2: "cdpSend b tid Runtime_enable ?s2 = (Returned r1, ?s3)"
    by (simp only: cdpSend_def r1)
  have a3: "cdpSend b tid (Network_enable 65536) ?s3 = (Returned r2, ?s4)"
    by (simp only: cdpSend_def r2)
  have "attach_and_enable b tid s = (Returned (), init_buffers tid ?s4)"
    by (simp only: attach_and_enable_def a1 a2 a3 Let_def prod.case outcome.case)
  moreover have "attachedTabs (init_buffers tid ?s4) = insert tid (attachedTabs s)"
    "calls (init_buffers tid ?s4) = calls ?s4"
    by (simp_all add: init_buffers_def Let_def)
  ultimately show ?thesis using False
    by (simp add: ensureDebuggerAttached_def)
qed

lemma evaluate_retries_aux:
  assumes tab: "\<And>s. fst (getActiveTab b (ep_tabId params) s) = Returned t"
      and att: "\<And>h. debugger_attach b h (t_id t) = Returned ()"
      and en: "\<And>h. \<exists>r. debugger_sendCommand b h (t_id t) Runtime_enable = Returned r"
      and ne: "\<And>h. \<exists>r. debugger_sendCommand b h (t_id t) (Network_enable 65536) = Returned r"
      and fail: "\<And>h. evaluate_calls h < N \<Longrightarrow>
                   debugger_sendCommand b h (t_id t) (evaluate_method params) = Threw m"
      and na: "str_includes m ''not attached''"
      and last: "\<And>h. evaluate_calls h = N \<Longrightarrow>
                   debugger_sendCommand b h (t_id t) (evaluate_method params) = final"
      and other: "\<And>m'. final = Threw m' \<Longrightarrow> \<not> str_includes m' ''not attached''"
  shows "evaluate_calls (calls s) + d = N \<Longrightarrow>
         \<exists>s'. cdpEvaluate b params s =
                 Some (case final of Returned r \<Rightarrow> Returned (evaluate_reply r) | Threw m' \<Rightarrow> Threw m', s')
            \<and> evaluate_calls (calls s') = N + 1
            \<and> attach_calls (calls s') = attach_calls (calls s) + d + (if t_id t \<in> attachedTabs s then 0 else 1)"
proof (induction d arbitrary: s)
  case 0
  obtain s1 where g: "getActiveTab b (ep_tabId params) s = (Returned t, s1)"
    using tab [of s] by (cases "getActiveTab b (ep_tabId params) s") simp
  note c1 = getActiveTab_counts [OF g] and f1 = getActiveTab_state [OF g]
  obtain s2 where e: "ensureDebuggerAttached b (t_id t) s1 = (Returned (), s2)"
    and c2: "evaluate_calls (calls s2) = evaluate_calls (calls s1)"
            "attach_calls (calls s2) = attach_calls (calls s1) + (if t_id t \<in> attachedTabs s1 then 0 else 1)"
    using ensure_succeeds [OF att en ne, of s1] by blast
  have n: "evaluate_calls (calls s2) = N" using c1 c2 "0.prems" by simp
  have ev: "is_evaluate_call (Debugger_sendCommand (t_id t) (evaluate_method params))"
    by (simp add: evaluate_method_def)
  have send: "cdpSend b (t_id t) (evaluate_method params) s2 =
                (final, record_call (Debugger_sendCommand (t_id t) (evaluate_method params)) s2)"
    by (simp add: cdpSend_def last [OF n])
  show ?case
  proof (cases final)
    case (Returned r)
    then show ?thesis
      by (subst cdpEvaluate.simps) (simp add: g e send ev n c1 c2 f1)
  next
    case (Threw m')
    with other have "\<not> str_includes m' ''not attached''" by simp
    with Threw show ?thesis
      by (subst cdpEvaluate.simps) (simp add: g e send ev n c1 c2 f1)
  qed
next
  case (Suc d)
  obtain s1 where g: "getActiveTab b (ep_tabId params) s = (Returned t, s1)"
    using tab [of s] by (cases "getActiveTab b (ep_tabId params) s") simp
  note c1 = getActiveTab_counts [OF g] and f1 = getActiveTab_state [OF g]
  obtain s2 where e: "ensureDebuggerAttached b (t_id t) s1 = (Returned (), s2)"
    and c2: "evaluate_calls (calls s2) = evaluate_calls (calls s1)"
            "attach_calls (calls s2) = attach_calls (calls s1) + (if t_id t \<in> attachedTabs s1 then 0 else 1)"
    using ensure_succeeds [OF att en ne, of s1] by blast
  have n: "evaluate_calls (calls s2) < N" using c1 c2 Suc.prems by simp
  have ev: "is_evaluate_call (Debugger_sendCommand (t_id t) (evaluate_method params))"
    by (simp add: evaluate_method_def)
  let ?s3 = "record_call (Debugger_sendCommand (t_id t) (evaluate_method params)) s2"
  have send: "cdpSend b (t_id t) (evaluate_method params) s2 = (Threw m, ?s3)"
    by (simp add: cdpSend_def fail [OF n])
  let ?s3' = "?s3\<lparr>attachedTabs := attachedTabs ?s3 - {t_id t}\<rparr>"
  obtain s4 where e4: "ensureDebuggerAttached b (t_id t) ?s3' = (Returned (), s4)"
    and in4: "t_id t \<in> attachedTabs s4"
    and c4: "evaluate_calls (calls s4) = evaluate_calls (calls ?s3')"
            "attach_calls (calls s4) = attach_calls (calls ?s3') + (if t_id t \<in> attachedTabs ?s3' then 0 else 1)"
    using ensure_succeeds [OF att en ne, of ?s3'] by blast
  have n4: "evaluate_calls (calls s4) + d = N"
    using c4 c2 c1 Suc.prems ev by simp
  from Suc.IH [OF n4] obtain s' where
    r: "cdpEvaluate b params s4 =
          Some (case final of Returned r \<Rightarrow> Returned (evaluate_reply r) | Threw m' \<Rightarrow> Threw m', s')"
    and cn: "evaluate_calls (calls s') = N + 1"
    and ca: "attach_calls (calls s') = attach_calls (calls s4) + d + (if t_id t \<in> attachedTabs s4 then 0 else 1)"
    by blast
  have step: "cdpEvaluate b params s = cdpEvaluate b params s4"
    by (subst cdpEvaluate.simps) (simp only: g e send na e4 prod.case outcome.case if_True)
  have "attach_calls (calls s') = attach_calls (calls s) + Suc d + (if t_id t \<in> attachedTabs s then 0 else 1)"
    using ca c4 c2 c1 in4 f1 ev by simp
  with step r cn show ?case by auto
qed


text \<open>
  Claim C2, as amended. Every failure of the \<open>Runtime.evaluate\<close> call with a message that
  contains \<open>not attached\<close> is followed by a re-attach and a retry, and the retry is the
  whole command again, so the number of cycles is not capped. When the browser resolves
  the tab, lets every attach succeed, fails the call that way \<open>k\<close> times and then answers
  with any other outcome, \<open>cdpEvaluate\<close> settles with that outcome after \<open>k + 1\<close>
  evaluate calls and \<open>k\<close> re-attaches (one more attach when the tab was not attached at
  the start).
\<close>

theorem evaluate_retries_while_detached:
  assumes tab: "\<And>s0. fst (getActiveTab b (ep_tabId params) s0) = Returned t"
      and att: "\<And>h. debugger_attach b h (t_id t) = Returned ()"
      and en: "\<And>h. \<exists>r. debugger_sendCommand b h (t_id t) Runtime_enable = Returned r"
      and ne: "\<And>h. \<exists>r. debugger_sendCommand b h (t_id t) (Network_enable 65536) = Returned r"
      and fail: "\<And>h. evaluate_calls h < evaluate_calls (calls s) + k \<Longrightarrow>
                   debugger_sendCommand b h (t_id t) (evaluate_method params) = Threw m"
      and na: "str_includes m ''not attached''"
      and last: "\<And>h. evaluate_calls h = evaluate_calls (calls s) + k \<Longrightarrow>
                   debugger_sendCommand b h (t_id t) (evaluate_method params) = final"
      and other: "\<And>m'. final = Threw m' \<Longrightarrow> \<not> str_includes m' ''not attached''"
  shows "\<exists>s'. cdpEvaluate b params s =
                 Some (case final of Returned r \<Rightarrow> Returned (evaluate_reply r) | Threw m' \<Rightarrow> Threw m', s')
            \<and> evaluate_calls (calls s') = evaluate_calls (calls s) + k + 1
            \<and> attach_calls (calls s') = attach_calls (calls s) + k + (if t_id t \<in> attachedTabs s then 0 else 1)"
  by (rule evaluate_retries_aux [OF tab att en ne fail na last other]) simp_all

lemma flaky_browser_simps:
  "tabs_get (flaky_browser k) h 7 = Returned (Some demo_tab)"
  "debugger_attach (flaky_browser k) h i = Returned ()"
  "debugger_sendCommand (flaky_browser k) h i Runtime_enable = Returned \<lparr>exceptionDetails = None, result_value = None, r_data = None, r_nodeId = None, r_root_nodeId = None\<rparr>"
  "debugger_sendCommand (flaky_browser k) h i (Network_enable n) = Returned \<lparr>exceptionDetails = None, result_value = None, r_data = None, r_nodeId = None, r_root_nodeId = None\<rparr>"
  "debugger_sendCommand (flaky_browser k) h i (Runtime_evaluate e a t) =
     (if evaluate_calls h < k then Threw not_attached_message
      else Returned \<lparr>exceptionDetails = None, result_value = Some (JNum 42), r_data = None, r_nodeId = None, r_root_nodeId = None\<rparr>)"
  by (simp_all add: flaky_browser_def demo_browser_def)

theorem evaluate_retries_while_detached_witness:
  "\<exists>s'. cdpEvaluate (flaky_browser 2) eval7 bg_init = Some (Returned (Eval_result (JNum 42)), s')
        \<and> evaluate_calls (calls s') = 3 \<and> attach_calls (calls s') = 3"
proof -
  have tab: "\<And>s0. fst (getActiveTab (flaky_browser 2) (ep_tabId eval7) s0) = Returned demo_tab"
    by (simp add: getActiveTab_def truthy_nat_def chrome_tabs_get_def eval7_def flaky_browser_simps)
  have tid: "t_id demo_tab = 7" by (simp add: demo_tab_def)
  have att: "\<And>h. debugger_attach (flaky_browser 2) h (t_id demo_tab) = Returned ()"
    by (simp add: flaky_browser_simps)
  have en: "\<And>h. \<exists>r. debugger_sendCommand (flaky_browser 2) h (t_id demo_tab) Runtime_enable = Returned r"
    by (simp add: flaky_browser_simps)
  have ne: "\<And>h. \<exists>r. debugger_sendCommand (flaky_browser 2) h (t_id demo_tab) (Network_enable 65536) = Returned r"
    by (simp add: flaky_browser_simps)
  have fail: "\<And>h. evaluate_calls h < evaluate_calls (calls bg_init) + 2 \<Longrightarrow>
       debugger_sendCommand (flaky_browser 2) h (t_id demo_tab) (evaluate_method eval7) = Threw not_attached_message"
    by (simp add: flaky_browser_simps evaluate_method_def bg_init_def)
  have last: "\<And>h. evaluate_calls h = evaluate_calls (calls bg_init) + 2 \<Longrightarrow>
       debugger_sendCommand (flaky_browser 2) h (t_id demo_tab) (evaluate_method eval7)
         = Returned \<lparr>exceptionDetails = None, result_value = Some (JNum 42), r_data = None, r_nodeId = None, r_root_nodeId = None\<rparr>"
    by (simp add: flaky_browser_simps evaluate_method_def bg_init_def)
  have other: "\<And>m'. (Returned \<lparr>exceptionDetails = None, result_value = Some (JNum 42), r_data = None, r_nodeId = None, r_root_nodeId = None\<rparr> :: cdp_result outcome) = Threw m'
                 \<Longrightarrow> \<not> str_includes m' ''not attached''"
    by simp
  from evaluate_retries_while_detached [where s = bg_init and k = 2 and b = "flaky_browser 2"
         and params = eval7 and t = demo_tab, OF tab att en ne fail na_includes last other]
  show ?thesis
    by (simp add: evaluate_reply_def bg_init_def tid numeral_3_eq_3)
qed

lemma detaching_browser_simps:
  "tabs_get detaching_browser h 7 = Returned (Some demo_tab)"
  "debugger_attach detaching_browser h i = Returned ()"
  "debugger_sendCommand detaching_browser h i Runtime_enable = Returned \<lparr>exceptionDetails = None, result_value = None, r_data = None, r_nodeId = None, r_root_nodeId = None\<rparr>"
  "debugger_sendCommand detaching_browser h i (Network_enable n) = Returned \<lparr>exceptionDetails = None, result_value = None, r_data = None, r_nodeId = None, r_root_nodeId = None\<rparr>"
  "debugger_sendCommand detaching_browser h i (Runtime_evaluate e a t) = Threw not_attached_message"
  by (simp_all add: detaching_browser_def demo_browser_def)

lemma detaching_never_settles:
  assumes run: "cdpEvaluate b params s = Some y"
  shows "\<not> (b = detaching_browser \<and> params = eval7)"
proof (rule cdpEvaluate.raw_induct
         [where P = "\<lambda>b params s y. \<not> (b = detaching_browser \<and> params = eval7)", OF _ run], goal_cases)
  case (1 f b params s y)
  show ?case
  proof
    assume bp: "b = detaching_browser \<and> params = eval7"
    have g: "getActiveTab detaching_browser (ep_tabId eval7) s = (Returned demo_tab, record_call (Tabs_get 7) s)"
      by (simp add: getActiveTab_def truthy_nat_def chrome_tabs_get_def eval7_def detaching_browser_simps)
    have tid: "t_id demo_tab = 7" by (simp add: demo_tab_def)
    obtain s2 where e: "ensureDebuggerAttached detaching_browser 7 (record_call (Tabs_get 7) s) = (Returned (), s2)"
      using ensure_succeeds [of detaching_browser 7 "record_call (Tabs_get 7) s"]
      by (auto simp: detaching_browser_simps)
    let ?s3 = "record_call (Debugger_sendCommand 7 (evaluate_method eval7)) s2"
    have send: "cdpSend detaching_browser 7 (evaluate_method eval7) s2 = (Threw not_attached_message, ?s3)"
      by (simp add: cdpSend_def evaluate_method_def detaching_browser_simps)
    obtain s4 where e4: "ensureDebuggerAttached detaching_browser 7 (?s3\<lparr>attachedTabs := attachedTabs ?s3 - {7}\<rparr>) = (Returned (), s4)"
      using ensure_succeeds [of detaching_browser 7 "?s3\<lparr>attachedTabs := attachedTabs ?s3 - {7}\<rparr>"]
      by (auto simp: detaching_browser_simps)
    from 1(2) have "f detaching_browser eval7 s4 = Some y"
      unfolding conjunct1 [OF bp] conjunct2 [OF bp]
      by (simp only: g e send na_includes e4 prod.case outcome.case if_True tid)
    from 1(1) [OF this] show False by simp
  qed
qed

text \<open>
  The claim as stated fails: when the call fails with "not attached" on every attempt
  and every re-attach succeeds, \<open>cdpEvaluate\<close> never settles.
\<close>

theorem evaluate_retry_unbounded_counterexample:
  "cdpEvaluate detaching_browser eval7 bg_init = None"
proof (cases "cdpEvaluate detaching_browser eval7 bg_init")
  case None
  then show ?thesis .
next
  case (Some y)
  from detaching_never_settles [OF this] show ?thesis by simp
qed

subsection \<open>Missing target elements\<close>

lemma empty_page_simps:
  "tabs_get empty_page_browser h 7 = Returned (Some demo_tab)"
  "debugger_attach empty_page_browser h i = Returned ()"
  "debugger_sendCommand empty_page_browser h i (Runtime_evaluate (Focus_and_clear sel c) a t) =
     Returned \<lparr>exceptionDetails =
                 Some \<lparr>exc_description = Some (''Error: Element not found: '' @ sel),
                       exc_text = Some ''Uncaught''\<rparr>,
               result_value = None, r_data = None, r_nodeId = None, r_root_nodeId = None\<rparr>"
  "debugger_sendCommand empty_page_browser h i (Runtime_evaluate (Scroll_into_view sel) a t) =
     Returned \<lparr>exceptionDetails = None, result_value = Some (JBool False), r_data = None, r_nodeId = None, r_root_nodeId = None\<rparr>"
  "debugger_sendCommand empty_page_browser h i (Runtime_evaluate (Locate_center sel) a t) =
     Returned \<lparr>exceptionDetails = None, result_value = Some JNull, r_data = None, r_nodeId = None, r_root_nodeId = None\<rparr>"
  "debugger_sendCommand empty_page_browser h i (Input_insertText x) =
     Returned \<lparr>exceptionDetails = None, result_value = None, r_data = None, r_nodeId = None, r_root_nodeId = None\<rparr>"
  "debugger_sendCommand empty_page_browser h i Runtime_enable =
     Returned \<lparr>exceptionDetails = None, result_value = None, r_data = None, r_nodeId = None, r_root_nodeId = None\<rparr>"
  "debugger_sendCommand empty_page_browser h i (Network_enable n) =
     Returned \<lparr>exceptionDetails = None, result_value = None, r_data = None, r_nodeId = None, r_root_nodeId = None\<rparr>"
  by (simp_all add: empty_page_browser_def demo_browser_def)

text \<open>
  Claim C9. A command that resolves its target from a selector is said to yield an
  "element not found" error when nothing matches. On a page without a matching element
  \<open>cdpType\<close> gets the exception of its page expression back in the reply, ignores it,
  inserts the text and reports success; \<open>cdpScroll\<close> ignores the \<open>false\<close> of its page
  expression and reports success as well.
\<close>

theorem native_type_scroll_ignore_missing_element:
  "cdpType empty_page_browser type_missing bg_init =
     (Returned \<lparr>tr_success = True, tr_typed = ''hello''\<rparr>,
      \<lparr>attachedTabs = {7}, consoleMessages = [7 \<mapsto> []], networkRequests = [7 \<mapsto> []],
       calls = [Tabs_get 7, Debugger_attach 7, Debugger_sendCommand 7 Runtime_enable,
                Debugger_sendCommand 7 (Network_enable 65536),
                Debugger_sendCommand 7 (Runtime_evaluate (Focus_and_clear ''#missing'' True) (Some False) None),
                Debugger_sendCommand 7 (Input_insertText ''hello'')]\<rparr>)
   \<and> fst (cdpScroll empty_page_browser scroll_missing bg_init) = Returned (Scrolled_to ''#missing'')"
proof -
  have t: "cdpType empty_page_browser type_missing bg_init =
     (Returned \<lparr>tr_success = True, tr_typed = ''hello''\<rparr>,
      \<lparr>attachedTabs = {7}, consoleMessages = [7 \<mapsto> []], networkRequests = [7 \<mapsto> []],
       calls = [Tabs_get 7, Debugger_attach 7, Debugger_sendCommand 7 Runtime_enable,
                Debugger_sendCommand 7 (Network_enable 65536),
                Debugger_sendCommand 7 (Runtime_evaluate (Focus_and_clear ''#missing'' True) (Some False) None),
                Debugger_sendCommand 7 (Input_insertText ''hello'')]\<rparr>)"
    by (simp add: cdpType_def type_missing_def insert_text_def
          getActiveTab_def truthy_nat_def chrome_tabs_get_def ensureDebuggerAttached_def attach_and_enable_def bg_init_def chrome_debugger_attach_def cdpSend_def empty_page_simps record_call_def init_buffers_def Let_def truthy_string_def demo_tab_def)
  have s: "fst (cdpScroll empty_page_browser scroll_missing bg_init) = Returned (Scrolled_to ''#missing'')"
    by (simp add: cdpScroll_def scroll_missing_def
          getActiveTab_def truthy_nat_def chrome_tabs_get_def ensureDebuggerAttached_def attach_and_enable_def bg_init_def chrome_debugger_attach_def cdpSend_def empty_page_simps record_call_def init_buffers_def Let_def truthy_string_def demo_tab_def)
  from t s show ?thesis by simp
qed

text \<open>The native click and the DOM click do report the missing element.\<close>

lemma native_click_reports_missing_element:
  "fst (cdpClick empty_page_browser click_missing bg_init) = Threw ''Element not found: #missing''"
  by (simp add: cdpClick_def click_missing_def
        getActiveTab_def truthy_nat_def chrome_tabs_get_def ensureDebuggerAttached_def attach_and_enable_def bg_init_def chrome_debugger_attach_def cdpSend_def empty_page_simps record_call_def init_buffers_def Let_def truthy_string_def demo_tab_def)

lemma dom_click_reports_missing_element:
  "findElement doc (dc_selector p) = None \<Longrightarrow> dc_x p = None \<or> dc_y p = None \<Longrightarrow>
   clickElement doc p = (Threw (''Element not found: '' @ dc_selector p), [])"
  by (auto simp: clickElement_def split: option.splits)

section \<open>Properties of sessions and reads\<close>


lemma view_record_call [simp]: "entries_view (record_call c s) = entries_view s"
  by (simp add: entries_view_def)

lemma view_attachedTabs [simp]: "entries_view (s\<lparr>attachedTabs := X\<rparr>) = entries_view s"
  by (simp add: entries_view_def)

lemma buffer_of_init: "m t = None \<Longrightarrow> buffer_of (m(t \<mapsto> [])) = buffer_of m"
  by (rule ext) (simp add: buffer_of_def)

lemma view_init_buffers [simp]: "entries_view (init_buffers t s) = entries_view s"
  by (simp add: entries_view_def init_buffers_def Let_def buffer_of_init)

















lemma no_entries_record_call [simp]: "no_entries t (record_call c s) = no_entries t s"
  by (simp add: no_entries_def)
















section \<open>Properties of the relay\<close>

lemma handleCommand_settle:
  assumes "ids_issued s" and "handleCommand ws msg s = (s1, out)"
  shows "ids_issued s1 \<and> settle_count rid out + may_settle rid s1 \<le> may_settle rid s"
proof (cases "chromeExtension s")
  case None
  with assms show ?thesis by (auto simp: handleCommand_def settle_count_def)
next
  case (Some ext)
  with assms(2) have s1: "s1 = s\<lparr>requestId := requestId s + 1,
        pendingRequests := (pendingRequests s)(requestId s + 1 \<mapsto> \<lparr>p_clientWs = ws, p_message = msg\<rparr>)\<rparr>"
    and out: "out = [Set_timeout (requestId s + 1) 30000, Ws_send ext (msg\<lparr>m_id := Some (requestId s + 1)\<rparr>)]"
    by (auto simp: handleCommand_def Let_def)
  have "ids_issued s1" using assms(1) unfolding s1 ids_issued_def by auto
  moreover have "settle_count rid out = 0" by (simp add: out settle_count_def)
  moreover have "may_settle rid s1 \<le> may_settle rid s"
    unfolding s1 may_settle_def by auto
  ultimately show ?thesis by simp
qed

lemma remove_settle:
  assumes "ids_issued s" and "pendingRequests s i \<noteq> None"
  shows "ids_issued (s\<lparr>pendingRequests := (pendingRequests s)(i := None)\<rparr>) \<and>
         (if i = rid then 1 else 0) + may_settle rid (s\<lparr>pendingRequests := (pendingRequests s)(i := None)\<rparr>)
           \<le> may_settle rid s"
  using assms unfolding ids_issued_def may_settle_def by auto

lemma on_timeout_settle:
  assumes "ids_issued s" and "on_timeout i s = (s1, out)"
  shows "ids_issued s1 \<and> settle_count rid out + may_settle rid s1 \<le> may_settle rid s"
proof (cases "pendingRequests s i")
  case None
  with assms show ?thesis by (auto simp: on_timeout_def settle_count_def)
next
  case (Some p)
  with assms(2) have s1: "s1 = s\<lparr>pendingRequests := (pendingRequests s)(i := None)\<rparr>"
    and out: "settle_count rid out = (if i = rid then 1 else 0)"
    by (auto simp: on_timeout_def settle_count_def)
  from remove_settle [OF assms(1), of i rid] Some show ?thesis
    unfolding s1 out by simp
qed

lemma on_message_settle:
  assumes "ids_issued s" and "on_message ws parsed s = (s1, out)"
  shows "ids_issued s1 \<and> settle_count rid out + may_settle rid s1 \<le> may_settle rid s"
proof (cases parsed)
  case (Threw m)
  with assms show ?thesis by (auto simp: on_message_def settle_count_def)
next
  case (Returned msg)
  show ?thesis
  proof (cases "m_type msg = Some ''connected''")
    case True
    with Returned assms show ?thesis
      by (auto simp: on_message_def settle_count_def ids_issued_def may_settle_def)
  next
    case nc: False
    show ?thesis
    proof (cases "answers_pending s msg")
      case True
      then have pend: "pendingRequests s (the (m_id msg)) \<noteq> None" by (simp add: answers_pending_def)
      from True Returned nc assms(2) have s1: "s1 = s\<lparr>pendingRequests := (pendingRequests s)(the (m_id msg) := None)\<rparr>"
        and out: "settle_count rid out = (if the (m_id msg) = rid then 1 else 0)"
        by (auto simp: on_message_def settle_count_def Let_def)
      from remove_settle [OF assms(1) pend, of rid] show ?thesis
        unfolding s1 out by simp
    next
      case nr: False
      show ?thesis
      proof (cases "truthy_string (m_command msg)")
        case True
        with Returned nc nr assms(2) have "handleCommand ws msg s = (s1, out)"
          by (simp add: on_message_def)
        from handleCommand_settle [OF assms(1) this] show ?thesis .
      next
        case False
        with Returned nc nr assms show ?thesis
          by (auto simp: on_message_def settle_count_def)
      qed
    qed
  qed
qed

lemma relay_step_settle:
  assumes "ids_issued s" and "relay_step e s = (s1, out)"
  shows "ids_issued s1 \<and> settle_count rid out + may_settle rid s1 \<le> may_settle rid s"
proof (cases e)
  case (Ws_message ws parsed)
  with assms on_message_settle show ?thesis by simp
next
  case (Ws_close ws)
  with assms have "s1 = s \<or> s1 = s\<lparr>chromeExtension := None\<rparr>" and "out = []"
    by (auto simp: on_close_def split: if_splits)
  with assms(1) show ?thesis
    by (auto simp: settle_count_def ids_issued_def may_settle_def)
next
  case (Timer_fired i)
  with assms on_timeout_settle show ?thesis by simp
qed

lemma settle_count_append [simp]: "settle_count rid (xs @ ys) = settle_count rid xs + settle_count rid ys"
  by (simp add: settle_count_def)

lemma relay_run_settle:
  "ids_issued s \<Longrightarrow> settle_count rid (snd (relay_run es s)) \<le> may_settle rid s"
proof (induction es arbitrary: s)
  case Nil
  then show ?case by (simp add: settle_count_def)
next
  case (Cons e es)
  obtain s1 out1 where st: "relay_step e s = (s1, out1)" by (cases "relay_step e s")
  from relay_step_settle [OF Cons.prems st, of rid]
  have inv: "ids_issued s1" and le: "settle_count rid out1 + may_settle rid s1 \<le> may_settle rid s"
    by simp_all
  from Cons.IH [OF inv] have "settle_count rid (snd (relay_run es s1)) \<le> may_settle rid s1" .
  with le show ?case by (cases "relay_run es s1") (simp add: st)
qed

lemma may_settle_le: "may_settle rid s \<le> 1"
  by (simp add: may_settle_def)

lemma ids_issued_init: "ids_issued relay_init"
  by (simp add: ids_issued_def relay_init_def)

lemma handleCommand_forward:
  "chromeExtension s = Some ext \<Longrightarrow>
   handleCommand ws msg s =
     (s\<lparr>requestId := requestId s + 1,
        pendingRequests := (pendingRequests s)(requestId s + 1 \<mapsto> \<lparr>p_clientWs = ws, p_message = msg\<rparr>)\<rparr>,
      [Set_timeout (requestId s + 1) 30000, Ws_send ext (msg\<lparr>m_id := Some (requestId s + 1)\<rparr>)])"
  by (simp add: handleCommand_def Let_def)

lemma timer_settles:
  "pendingRequests s rid = Some p \<Longrightarrow>
   relay_step (Timer_fired rid) s =
     (s\<lparr>pendingRequests := (pendingRequests s)(rid := None)\<rparr>,
      [Promise_reject rid ''Request timeout'', Ws_send (p_clientWs p) (timeout_error_frame (p_message p))])"
  by (simp add: on_timeout_def timeout_error_frame_def)

lemma response_settles:
  "pendingRequests s rid = Some p \<Longrightarrow> rid \<noteq> 0 \<Longrightarrow> m_id resp = Some rid \<Longrightarrow>
   m_type resp \<noteq> Some ''connected'' \<Longrightarrow>
   relay_step (Ws_message ws (Returned resp)) s =
     (s\<lparr>pendingRequests := (pendingRequests s)(rid := None)\<rparr>,
      [Promise_resolve rid resp, Ws_send (p_clientWs p) resp])"
  by (simp add: on_message_def answers_pending_def truthy_nat_def Let_def)

text \<open>
  The single steps around a request: forwarding arms a timer of 30 000 ms and stores the
  request under a new id; the timer or a response with its id removes it and writes to
  the socket that sent the command; after that a late timer does nothing and a late
  response is dropped.
\<close>

lemma request_steps:
  "settle_count rid (snd (relay_run es relay_init)) \<le> 1
   \<and> (chromeExtension s = Some ext \<longrightarrow>
        handleCommand ws msg s =
          (s\<lparr>requestId := requestId s + 1,
             pendingRequests := (pendingRequests s)(requestId s + 1 \<mapsto> \<lparr>p_clientWs = ws, p_message = msg\<rparr>)\<rparr>,
           [Set_timeout (requestId s + 1) 30000, Ws_send ext (msg\<lparr>m_id := Some (requestId s + 1)\<rparr>)]))
   \<and> (pendingRequests s rid = Some p \<longrightarrow>
        relay_step (Timer_fired rid) s =
          (s\<lparr>pendingRequests := (pendingRequests s)(rid := None)\<rparr>,
           [Promise_reject rid ''Request timeout'', Ws_send (p_clientWs p) (timeout_error_frame (p_message p))]))
   \<and> (pendingRequests s rid = Some p \<and> rid \<noteq> 0 \<and> m_id resp = Some rid \<and> m_type resp \<noteq> Some ''connected'' \<longrightarrow>
        relay_step (Ws_message ws' (Returned resp)) s =
          (s\<lparr>pendingRequests := (pendingRequests s)(rid := None)\<rparr>,
           [Promise_resolve rid resp, Ws_send (p_clientWs p) resp]))
   \<and> (pendingRequests s rid = None \<longrightarrow> relay_step (Timer_fired rid) s = (s, []))
   \<and> (pendingRequests s rid = None \<and> m_id resp = Some rid \<and> m_type resp \<noteq> Some ''connected''
        \<and> \<not> truthy_string (m_command resp) \<longrightarrow>
        relay_step (Ws_message ws' (Returned resp)) s = (s, []))"
proof (intro conjI impI)
  show "settle_count rid (snd (relay_run es relay_init)) \<le> 1"
    using relay_run_settle [OF ids_issued_init, of rid es] may_settle_le [of rid relay_init]
    by (rule order_trans)
  show "handleCommand ws msg s =
          (s\<lparr>requestId := requestId s + 1,
             pendingRequests := (pendingRequests s)(requestId s + 1 \<mapsto> \<lparr>p_clientWs = ws, p_message = msg\<rparr>)\<rparr>,
           [Set_timeout (requestId s + 1) 30000, Ws_send ext (msg\<lparr>m_id := Some (requestId s + 1)\<rparr>)])"
    if "chromeExtension s = Some ext" using that by (rule handleCommand_forward)
  show "relay_step (Timer_fired rid) s =
          (s\<lparr>pendingRequests := (pendingRequests s)(rid := None)\<rparr>,
           [Promise_reject rid ''Request timeout'', Ws_send (p_clientWs p) (timeout_error_frame (p_message p))])"
    if "pendingRequests s rid = Some p" using that by (rule timer_settles)
  show "relay_step (Ws_message ws' (Returned resp)) s =
          (s\<lparr>pendingRequests := (pendingRequests s)(rid := None)\<rparr>,
           [Promise_resolve rid resp, Ws_send (p_clientWs p) resp])"
    if "pendingRequests s rid = Some p \<and> rid \<noteq> 0 \<and> m_id resp = Some rid \<and> m_type resp \<noteq> Some ''connected''"
    using that response_settles by blast
  show "relay_step (Timer_fired rid) s = (s, [])" if "pendingRequests s rid = None"
    using that by (simp add: on_timeout_def)
  show "relay_step (Ws_message ws' (Returned resp)) s = (s, [])"
    if "pendingRequests s rid = None \<and> m_id resp = Some rid \<and> m_type resp \<noteq> Some ''connected''
        \<and> \<not> truthy_string (m_command resp)"
    using that by (simp add: on_message_def answers_pending_def)
qed

lemma result_frame_fields [simp]:
  "m_id (result_frame i) = Some i" "m_type (result_frame i) = None" "m_command (result_frame i) = None"
  by (simp_all add: result_frame_def empty_message_def)

lemma command_step:
  assumes ext: "chromeExtension s = Some ext"
      and cmd: "m_type m \<noteq> Some ''connected''" "m_id m = None" "truthy_string (m_command m)"
  shows "relay_step (command_event (c, m)) s =
     (s\<lparr>requestId := requestId s + 1,
        pendingRequests := (pendingRequests s)(requestId s + 1 \<mapsto> \<lparr>p_clientWs = c, p_message = m\<rparr>)\<rparr>,
      [Set_timeout (requestId s + 1) 30000, Ws_send ext (m\<lparr>m_id := Some (requestId s + 1)\<rparr>)])"
  using cmd
  by (simp add: command_event_def on_message_def answers_pending_def truthy_nat_def
        handleCommand_forward [OF ext])

text \<open>After a batch of commands the request of the k-th one is pending under the k-th new id.\<close>

lemma commands_registered:
  assumes ext: "chromeExtension s = Some ext"
      and cmds: "\<forall>cm \<in> set cmds. m_type (snd cm) \<noteq> Some ''connected'' \<and> m_id (snd cm) = None
                    \<and> truthy_string (m_command (snd cm))"
  shows "requestId (fst (relay_run (map command_event cmds) s)) = requestId s + length cmds
       \<and> (\<forall>i \<le> requestId s. pendingRequests (fst (relay_run (map command_event cmds) s)) i = pendingRequests s i)
       \<and> (\<forall>k < length cmds. pendingRequests (fst (relay_run (map command_event cmds) s)) (requestId s + k + 1)
              = Some \<lparr>p_clientWs = fst (cmds ! k), p_message = snd (cmds ! k)\<rparr>)"
  using assms
proof (induction cmds arbitrary: s)
  case Nil
  then show ?case by simp
next
  case (Cons cm cmds)
  obtain c m where cm: "cm = (c, m)" by (cases cm)
  let ?s1 = "s\<lparr>requestId := requestId s + 1,
        pendingRequests := (pendingRequests s)(requestId s + 1 \<mapsto> \<lparr>p_clientWs = c, p_message = m\<rparr>)\<rparr>"
  have st: "relay_step (command_event cm) s =
              (?s1, [Set_timeout (requestId s + 1) 30000, Ws_send ext (m\<lparr>m_id := Some (requestId s + 1)\<rparr>)])"
    unfolding cm using Cons.prems by (intro command_step) (simp_all add: cm)
  have ext1: "chromeExtension ?s1 = Some ext" using Cons.prems by simp
  have rest: "\<forall>cm \<in> set cmds. m_type (snd cm) \<noteq> Some ''connected'' \<and> m_id (snd cm) = None
                    \<and> truthy_string (m_command (snd cm))"
    using Cons.prems by simp
  note IH = Cons.IH [OF ext1 rest]
  let ?f = "fst (relay_run (map command_event cmds) ?s1)"
  have fin: "fst (relay_run (map command_event (cm # cmds)) s) = ?f"
    by (simp add: st split: prod.split)
  from IH have r: "requestId ?f = requestId s + 1 + length cmds"
    and low: "\<And>i. i \<le> requestId s + 1 \<Longrightarrow> pendingRequests ?f i = pendingRequests ?s1 i"
    and new: "\<And>k. k < length cmds \<Longrightarrow>
                pendingRequests ?f (requestId s + 1 + k + 1)
                  = Some \<lparr>p_clientWs = fst (cmds ! k), p_message = snd (cmds ! k)\<rparr>"
    by simp_all
  have a: "requestId ?f = requestId s + length (cm # cmds)" using r by simp
  have b: "\<forall>i \<le> requestId s. pendingRequests ?f i = pendingRequests s i"
    using low by simp
  have c: "\<forall>k < length (cm # cmds). pendingRequests ?f (requestId s + k + 1)
              = Some \<lparr>p_clientWs = fst ((cm # cmds) ! k), p_message = snd ((cm # cmds) ! k)\<rparr>"
  proof (intro allI impI)
    fix k assume k: "k < length (cm # cmds)"
    show "pendingRequests ?f (requestId s + k + 1)
              = Some \<lparr>p_clientWs = fst ((cm # cmds) ! k), p_message = snd ((cm # cmds) ! k)\<rparr>"
    proof (cases k)
      case 0
      then show ?thesis using low [of "requestId s + 1"] by (simp add: cm)
    next
      case (Suc j)
      with k have "j < length cmds" by simp
      from new [OF this] show ?thesis by (simp add: Suc)
    qed
  qed
  from a b c show ?case unfolding fin by blast
qed

text \<open>Responses for pending requests, in any order, go to the sockets stored under their ids.\<close>

lemma responses_routed:
  assumes "distinct (map m_id rs)"
      and "\<forall>r \<in> set rs. m_type r \<noteq> Some ''connected'' \<and> answers_pending s r"
  shows "snd (relay_run (map (response_event ws) rs) s) =
           concat (map (\<lambda>r. [Promise_resolve (the (m_id r)) r,
                              Ws_send (p_clientWs (the (pendingRequests s (the (m_id r))))) r]) rs)"
  using assms
proof (induction rs arbitrary: s)
  case Nil
  then show ?case by simp
next
  case (Cons r rs)
  let ?i = "the (m_id r)"
  let ?s1 = "s\<lparr>pendingRequests := (pendingRequests s)(?i := None)\<rparr>"
  have r: "m_type r \<noteq> Some ''connected''" "answers_pending s r" using Cons.prems by simp_all
  have st: "relay_step (response_event ws r) s =
              (?s1, [Promise_resolve ?i r, Ws_send (p_clientWs (the (pendingRequests s ?i))) r])"
    using r by (simp add: response_event_def on_message_def Let_def)
  have other: "\<And>r'. r' \<in> set rs \<Longrightarrow> the (m_id r') \<noteq> ?i"
  proof -
    fix r' assume in': "r' \<in> set rs"
    then have "m_id r' \<in> set (map m_id rs)" by simp
    moreover from Cons.prems(1) have "m_id r \<notin> set (map m_id rs)" by simp
    ultimately have "m_id r' \<noteq> m_id r" by metis
    moreover from Cons.prems(2) in' have "answers_pending s r'" by simp
    ultimately have "m_id r' \<noteq> m_id r" "answers_pending s r'" by simp_all
    with r(2) show "the (m_id r') \<noteq> ?i"
      by (auto simp: answers_pending_def truthy_nat_def)
  qed
  have d: "distinct (map m_id rs)" using Cons.prems by simp
  have p: "\<forall>r' \<in> set rs. m_type r' \<noteq> Some ''connected'' \<and> answers_pending ?s1 r'"
    using Cons.prems other by (auto simp: answers_pending_def)
  have same: "map (\<lambda>r'. [Promise_resolve (the (m_id r')) r',
                        Ws_send (p_clientWs (the (pendingRequests ?s1 (the (m_id r'))))) r']) rs
            = map (\<lambda>r'. [Promise_resolve (the (m_id r')) r',
                        Ws_send (p_clientWs (the (pendingRequests s (the (m_id r'))))) r']) rs"
    using other by (intro map_cong) simp_all
  have ih: "snd (relay_run (map (response_event ws) rs) ?s1) =
              concat (map (\<lambda>r'. [Promise_resolve (the (m_id r')) r',
                        Ws_send (p_clientWs (the (pendingRequests s (the (m_id r'))))) r']) rs)"
    using Cons.IH [OF d p] unfolding same .
  obtain s2 out2 where run: "relay_run (map (response_event ws) rs) ?s1 = (s2, out2)"
    by (cases "relay_run (map (response_event ws) rs) ?s1")
  with ih have out2: "out2 = concat (map (\<lambda>r'. [Promise_resolve (the (m_id r')) r',
                        Ws_send (p_clientWs (the (pendingRequests s (the (m_id r'))))) r']) rs)"
    by simp
  have "relay_run (map (response_event ws) (r # rs)) s =
          (s2, [Promise_resolve ?i r, Ws_send (p_clientWs (the (pendingRequests s ?i))) r] @ out2)"
    by (simp only: list.map relay_run.simps st run prod.case)
  then show ?case by (simp add: out2)
qed

text \<open>
  Claim C5. With an endpoint registered, let controllers send any number of commands,
  which get consecutive ids, and let responses for distinct ids among them arrive in any
  order, from any socket. Then each response settles the request of its own id and is
  written to the socket that sent the command which got that id.
\<close>

theorem responses_reach_originators:
  assumes ext: "chromeExtension s = Some ext"
      and cmds: "\<forall>cm \<in> set cmds. m_type (snd cm) \<noteq> Some ''connected'' \<and> m_id (snd cm) = None
                    \<and> truthy_string (m_command (snd cm))"
      and rs: "\<forall>r \<in> set rs. m_type r \<noteq> Some ''connected''
                    \<and> (\<exists>k < length cmds. m_id r = Some (requestId s + k + 1))"
      and dist: "distinct (map m_id rs)"
  shows "snd (relay_run (map (response_event ws) rs) (fst (relay_run (map command_event cmds) s))) =
           concat (map (\<lambda>r. [Promise_resolve (the (m_id r)) r,
                              Ws_send (fst (cmds ! (the (m_id r) - requestId s - 1))) r]) rs)"
proof -
  let ?s1 = "fst (relay_run (map command_event cmds) s)"
  note reg = commands_registered [OF ext cmds]
  have look: "\<And>r. r \<in> set rs \<Longrightarrow> answers_pending ?s1 r \<and>
                 p_clientWs (the (pendingRequests ?s1 (the (m_id r)))) = fst (cmds ! (the (m_id r) - requestId s - 1))"
  proof -
    fix r assume "r \<in> set rs"
    with rs obtain k where k: "k < length cmds" "m_id r = Some (requestId s + k + 1)" by blast
    from reg k(1) have "pendingRequests ?s1 (requestId s + k + 1)
              = Some \<lparr>p_clientWs = fst (cmds ! k), p_message = snd (cmds ! k)\<rparr>" by blast
    with k(2) show "answers_pending ?s1 r \<and>
                 p_clientWs (the (pendingRequests ?s1 (the (m_id r)))) = fst (cmds ! (the (m_id r) - requestId s - 1))"
      by (simp add: answers_pending_def truthy_nat_def)
  qed
  have p: "\<forall>r \<in> set rs. m_type r \<noteq> Some ''connected'' \<and> answers_pending ?s1 r"
    using rs look by blast
  have same: "map (\<lambda>r. [Promise_resolve (the (m_id r)) r,
                        Ws_send (p_clientWs (the (pendingRequests ?s1 (the (m_id r))))) r]) rs
            = map (\<lambda>r. [Promise_resolve (the (m_id r)) r,
                        Ws_send (fst (cmds ! (the (m_id r) - requestId s - 1))) r]) rs"
    using look by (intro map_cong) simp_all
  show ?thesis
    unfolding responses_routed [OF dist p] same ..
qed

lemma navigate_frame_fields [simp]:
  "m_id navigate_frame = None" "m_type navigate_frame = None" "m_command navigate_frame = Some ''navigate''"
  by (simp_all add: navigate_frame_def empty_message_def)

theorem responses_reach_originators_witness:
  "snd (relay_run (map (response_event 1) [result_frame 3, result_frame 1, result_frame 2])
          (fst (relay_run (map command_event three_commands) relay_connected))) =
     [Promise_resolve 3 (result_frame 3), Ws_send 4 (result_frame 3),
      Promise_resolve 1 (result_frame 1), Ws_send 2 (result_frame 1),
      Promise_resolve 2 (result_frame 2), Ws_send 3 (result_frame 2)]"
proof -
  have ext: "chromeExtension relay_connected = Some 1" by (simp add: relay_connected_def)
  have cmds: "\<forall>cm \<in> set three_commands. m_type (snd cm) \<noteq> Some ''connected'' \<and> m_id (snd cm) = None
                    \<and> truthy_string (m_command (snd cm))"
    by (simp add: three_commands_def truthy_string_def)
  have k: "\<exists>k < length three_commands. (3::nat) = requestId relay_connected + k + 1"
          "\<exists>k < length three_commands. (1::nat) = requestId relay_connected + k + 1"
          "\<exists>k < length three_commands. (2::nat) = requestId relay_connected + k + 1"
    by (rule exI [of _ 2], simp add: three_commands_def relay_connected_def,
        rule exI [of _ 0], simp add: three_commands_def relay_connected_def,
        rule exI [of _ 1], simp add: three_commands_def relay_connected_def)
  have rs: "\<forall>r \<in> set [result_frame 3, result_frame 1, result_frame 2]. m_type r \<noteq> Some ''connected''
                    \<and> (\<exists>k < length three_commands. m_id r = Some (requestId relay_connected + k + 1))"
    using k by simp
  have dist: "distinct (map m_id [result_frame 3, result_frame 1, result_frame 2])" by simp
  have z: "requestId relay_connected = 0" by (simp add: relay_connected_def)
  from responses_reach_originators [OF ext cmds rs dist, of 1]
  show ?thesis by (simp add: z three_commands_def)
qed

text \<open>
  Claim C6. While no endpoint is registered, a command is answered at once with the
  "not connected" error frame on the socket it came from, and the relay state stays as
  it was: no request is stored, and an endpoint that connects afterwards gets nothing.
\<close>

theorem command_without_endpoint:
  assumes "chromeExtension s = None"
  shows "handleCommand ws msg s = (s, [Ws_send ws (not_connected_frame msg)])
       \<and> (m_type msg \<noteq> Some ''connected'' \<and> \<not> answers_pending s msg \<and> truthy_string (m_command msg) \<longrightarrow>
            relay_step (Ws_message ws (Returned msg)) s = (s, [Ws_send ws (not_connected_frame msg)])
          \<and> relay_run [Ws_message ws (Returned msg), Ws_message ext (Returned connected_frame)] s
              = (s\<lparr>chromeExtension := Some ext\<rparr>, [Ws_send ws (not_connected_frame msg)]))"
proof -
  have h: "handleCommand ws msg s = (s, [Ws_send ws (not_connected_frame msg)])"
    using assms by (simp add: handleCommand_def not_connected_frame_def)
  have c: "on_message ext (Returned connected_frame) s = (s\<lparr>chromeExtension := Some ext\<rparr>, [])"
    by (simp add: on_message_def connected_frame_def empty_message_def)
  have m: "on_message ws (Returned msg) s = (s, [Ws_send ws (not_connected_frame msg)])"
    if "m_type msg \<noteq> Some ''connected'' \<and> \<not> answers_pending s msg \<and> truthy_string (m_command msg)"
    using that by (simp add: on_message_def h)
  have r: "relay_run [Ws_message ws (Returned msg), Ws_message ext (Returned connected_frame)] s
              = (s\<lparr>chromeExtension := Some ext\<rparr>, [Ws_send ws (not_connected_frame msg)])"
    if "m_type msg \<noteq> Some ''connected'' \<and> \<not> answers_pending s msg \<and> truthy_string (m_command msg)"
    by (simp only: relay_run.simps relay_step.simps m [OF that] c prod.case append.simps)
  from h m r show ?thesis by simp
qed

theorem command_without_endpoint_witness:
  "chromeExtension relay_init = None
   \<and> handleCommand 2 navigate_frame relay_init = (relay_init, [Ws_send 2 (not_connected_frame navigate_frame)])
   \<and> relay_run [Ws_message 2 (Returned navigate_frame), Ws_message 1 (Returned connected_frame)] relay_init
       = (relay_connected, [Ws_send 2 (not_connected_frame navigate_frame)])
   \<and> pendingRequests relay_connected = Map.empty"
proof -
  have a: "chromeExtension relay_init = None" by (simp add: relay_init_def)
  have b: "m_type navigate_frame \<noteq> Some ''connected'' \<and> \<not> answers_pending relay_init navigate_frame
             \<and> truthy_string (m_command navigate_frame)"
    by (simp add: answers_pending_def truthy_nat_def truthy_string_def)
  have c: "relay_init\<lparr>chromeExtension := Some 1\<rparr> = relay_connected"
    by (simp add: relay_init_def relay_connected_def)
  have d: "pendingRequests relay_connected = Map.empty" by (simp add: relay_connected_def)
  from command_without_endpoint [OF a, of 2 navigate_frame 1, unfolded c] a b d
  show ?thesis by blast
qed

section \<open>Requests in runs of the relay\<close>

lemma relay_run_append:
  "relay_run (xs @ ys) s =
     (case relay_run xs s of (s1, out1) \<Rightarrow>
        (case relay_run ys s1 of (s2, out2) \<Rightarrow> (s2, out1 @ out2)))"
proof (induction xs arbitrary: s)
  case Nil
  then show ?case by (simp split: prod.split)
next
  case (Cons e xs)
  show ?case by (simp add: Cons.IH split: prod.split)
qed

lemma relay_run_ids_issued: "ids_issued s \<Longrightarrow> ids_issued (fst (relay_run es s))"
proof (induction es arbitrary: s)
  case Nil
  then show ?case by simp
next
  case (Cons e es)
  obtain s1 out1 where st: "relay_step e s = (s1, out1)" by (cases "relay_step e s")
  from relay_step_settle [OF Cons.prems st, of 0] have "ids_issued s1" by simp
  from Cons.IH [OF this] show ?case by (cases "relay_run es s1") (simp add: st)
qed

text \<open>An event that does not concern a pending request leaves it pending and unsettled.\<close>

lemma quiet_step:
  assumes inv: "ids_issued s" and pend: "pendingRequests s rid = Some p"
      and quiet: "\<not> concerns rid e" and st: "relay_step e s = (s1, out)"
  shows "pendingRequests s1 rid = Some p \<and> settle_count rid out = 0"
proof (cases e)
  case (Timer_fired i)
  with quiet have ne: "i \<noteq> rid" by simp
  show ?thesis
  proof (cases "pendingRequests s i")
    case None
    with st Timer_fired pend show ?thesis by (auto simp: on_timeout_def settle_count_def)
  next
    case (Some q)
    with st Timer_fired pend ne show ?thesis by (auto simp: on_timeout_def settle_count_def)
  qed
next
  case (Ws_close ws)
  with st pend show ?thesis by (auto simp: on_close_def settle_count_def split: if_splits)
next
  case (Ws_message ws parsed)
  show ?thesis
  proof (cases parsed)
    case (Threw m)
    with st Ws_message pend show ?thesis by (auto simp: on_message_def settle_count_def)
  next
    case (Returned msg)
    with quiet Ws_message have ne: "m_id msg \<noteq> Some rid" by simp
    from st Ws_message Returned have om: "on_message ws (Returned msg) s = (s1, out)" by simp
    show ?thesis
    proof (cases "m_type msg = Some ''connected''")
      case True
      with om pend show ?thesis by (auto simp: on_message_def settle_count_def)
    next
      case nc: False
      show ?thesis
      proof (cases "answers_pending s msg")
        case True
        then have "the (m_id msg) \<noteq> rid" using ne
          by (auto simp: answers_pending_def truthy_nat_def)
        with om nc True pend show ?thesis
          by (auto simp: on_message_def settle_count_def Let_def)
      next
        case na: False
        show ?thesis
        proof (cases "truthy_string (m_command msg)")
          case False
          with om nc na pend show ?thesis by (auto simp: on_message_def settle_count_def)
        next
          case True
          with om nc na have hc: "handleCommand ws msg s = (s1, out)" by (simp add: on_message_def)
          from inv pend have le: "rid \<le> requestId s" by (auto simp: ids_issued_def)
          show ?thesis
          proof (cases "chromeExtension s")
            case None
            with hc pend show ?thesis by (auto simp: handleCommand_def settle_count_def)
          next
            case (Some ext)
            with hc pend le show ?thesis
              by (auto simp: handleCommand_def settle_count_def Let_def)
          qed
        qed
      qed
    qed
  qed
qed

lemma quiet_run:
  assumes "ids_issued s" and "pendingRequests s rid = Some p"
      and "\<forall>e \<in> set es. \<not> concerns rid e"
  shows "pendingRequests (fst (relay_run es s)) rid = Some p
       \<and> settle_count rid (snd (relay_run es s)) = 0"
  using assms
proof (induction es arbitrary: s)
  case Nil
  then show ?case by (simp add: settle_count_def)
next
  case (Cons e es)
  obtain s1 out1 where st: "relay_step e s = (s1, out1)" by (cases "relay_step e s")
  have q: "\<not> concerns rid e" using Cons.prems(3) by simp
  from quiet_step [OF Cons.prems(1,2) q st]
  have p1: "pendingRequests s1 rid = Some p" and c1: "settle_count rid out1 = 0" by simp_all
  from relay_step_settle [OF Cons.prems(1) st, of 0] have i1: "ids_issued s1" by simp
  have "\<forall>e \<in> set es. \<not> concerns rid e" using Cons.prems(3) by simp
  from Cons.IH [OF i1 p1 this] c1 show ?case
    by (cases "relay_run es s1") (simp add: st)
qed

text \<open>A request that was issued and is no longer pending stays that way.\<close>

lemma removed_step:
  assumes "pendingRequests s rid = None" and "rid \<le> requestId s" and "relay_step e s = (s1, out)"
  shows "pendingRequests s1 rid = None \<and> rid \<le> requestId s1"
proof (cases e)
  case (Timer_fired i)
  with assms show ?thesis by (auto simp: on_timeout_def split: option.splits)
next
  case (Ws_close ws)
  with assms show ?thesis by (auto simp: on_close_def split: if_splits)
next
  case (Ws_message ws parsed)
  show ?thesis
  proof (cases parsed)
    case (Threw m)
    with assms Ws_message show ?thesis by (auto simp: on_message_def)
  next
    case (Returned msg)
    show ?thesis
    proof (cases "chromeExtension s")
      case None
      with assms Ws_message Returned show ?thesis
        by (auto simp: on_message_def handleCommand_def Let_def split: if_splits)
    next
      case (Some ext)
      with assms Ws_message Returned show ?thesis
        by (auto simp: on_message_def handleCommand_def Let_def split: if_splits)
    qed
  qed
qed

lemma removed_run:
  assumes "pendingRequests s rid = None" and "rid \<le> requestId s"
  shows "pendingRequests (fst (relay_run es s)) rid = None"
  using assms
proof (induction es arbitrary: s)
  case Nil
  then show ?case by simp
next
  case (Cons e es)
  obtain s1 out1 where st: "relay_step e s = (s1, out1)" by (cases "relay_step e s")
  from removed_step [OF Cons.prems st] Cons.IH [of s1] show ?case
    by (cases "relay_run es s1") (simp add: st)
qed

lemma removed_unsettled:
  assumes "ids_issued s" and "pendingRequests s rid = None" and "rid \<le> requestId s"
  shows "settle_count rid (snd (relay_run es s)) = 0"
proof -
  have "may_settle rid s = 0" using assms by (simp add: may_settle_def)
  with relay_run_settle [OF assms(1), of rid es] show ?thesis by simp
qed


text \<open>
  A forwarded command, events that do not concern its request, then the event that
  settles it, then anything.
\<close>

lemma settled_in_run:
  assumes inv: "ids_issued s"
      and ext: "chromeExtension s = Some ext"
      and cmd: "m_type msg \<noteq> Some ''connected''" "m_id msg = None" "truthy_string (m_command msg)"
      and quiet: "\<forall>e \<in> set es. \<not> concerns (requestId s + 1) e"
      and fin: "\<And>st. pendingRequests st (requestId s + 1) = Some \<lparr>p_clientWs = ws, p_message = msg\<rparr> \<Longrightarrow>
                  relay_step e st =
                    (st\<lparr>pendingRequests := (pendingRequests st)(requestId s + 1 := None)\<rparr>, fin_out)"
  shows "pendingRequests (fst (relay_run (Ws_message ws (Returned msg) # es) s)) (requestId s + 1)
           = Some \<lparr>p_clientWs = ws, p_message = msg\<rparr>
       \<and> (\<exists>s' out1 out2.
            relay_run (Ws_message ws (Returned msg) # es @ e # es') s =
              (s', [Set_timeout (requestId s + 1) 30000, Ws_send ext (msg\<lparr>m_id := Some (requestId s + 1)\<rparr>)]
                   @ out1 @ fin_out @ out2)
            \<and> settle_count (requestId s + 1) out1 = 0
            \<and> settle_count (requestId s + 1) out2 = 0
            \<and> pendingRequests s' (requestId s + 1) = None)"
proof -
  let ?rid = "requestId s + 1"
  let ?p = "\<lparr>p_clientWs = ws, p_message = msg\<rparr>"
  let ?sw = "s\<lparr>requestId := ?rid, pendingRequests := (pendingRequests s)(?rid \<mapsto> ?p)\<rparr>"
  let ?o0 = "[Set_timeout ?rid 30000, Ws_send ext (msg\<lparr>m_id := Some ?rid\<rparr>)]"
  have st0: "relay_step (Ws_message ws (Returned msg)) s = (?sw, ?o0)"
    using command_step [OF ext cmd, of ws] by (simp add: command_event_def)
  from relay_step_settle [OF inv st0, of 0] have iw: "ids_issued ?sw" by simp
  have pw: "pendingRequests ?sw ?rid = Some ?p" by simp
  obtain se out1 where re: "relay_run es ?sw = (se, out1)" by (cases "relay_run es ?sw")
  have qw: "\<forall>e \<in> set es. \<not> concerns ?rid e" using quiet .
  from quiet_run [OF iw pw qw] re
  have pe: "pendingRequests se ?rid = Some ?p" and c1: "settle_count ?rid out1 = 0" by simp_all
  from relay_run_ids_issued [OF iw, of es] re have ie: "ids_issued se" by simp
  let ?st = "se\<lparr>pendingRequests := (pendingRequests se)(?rid := None)\<rparr>"
  have stf: "relay_step e se = (?st, fin_out)" by (rule fin [OF pe])
  from relay_step_settle [OF ie stf, of 0] have it: "ids_issued ?st" by simp
  from ie pe have le: "?rid \<le> requestId ?st" by (auto simp: ids_issued_def)
  have nt: "pendingRequests ?st ?rid = None" by simp
  obtain s' out2 where r2: "relay_run es' ?st = (s', out2)" by (cases "relay_run es' ?st")
  from removed_unsettled [OF it nt le, of es'] r2 have c2: "settle_count ?rid out2 = 0" by simp
  from removed_run [OF nt le, of es'] r2 have n': "pendingRequests s' ?rid = None" by simp
  have tail: "relay_run (e # es') se = (s', fin_out @ out2)"
    by (simp only: relay_run.simps stf r2 prod.case)
  have mid: "relay_run (es @ e # es') ?sw = (s', out1 @ fin_out @ out2)"
    by (simp only: relay_run_append re tail prod.case)
  have whole: "relay_run (Ws_message ws (Returned msg) # es @ e # es') s = (s', ?o0 @ out1 @ fin_out @ out2)"
    by (simp only: relay_run.simps st0 mid prod.case)
  have first: "relay_run (Ws_message ws (Returned msg) # es) s = (se, ?o0 @ out1)"
    by (simp only: relay_run.simps st0 re prod.case)
  from whole c1 c2 n' pe first show ?thesis by auto
qed

text \<open>
  Claim C4. The timer of a request is one event, firing 30 000 ms after it was armed; a
  response is a frame with the id of the request; they may come in either order, among
  any other events. In every run of the relay the promise of a request is settled at
  most once. Take a reachable state with an endpoint registered and a command from
  socket \<open>ws\<close>: it is forwarded with a timer of 30 000 ms and its request stays pending
  through all events that are neither its timer nor a frame with its id, whatever else
  happens (other commands and responses, the endpoint disconnecting). If the timer comes
  first, the request is removed and one timeout error is written to \<open>ws\<close>; if a response
  comes first, the request is removed and the response is written to \<open>ws\<close>. In both
  cases nothing before and nothing after settles the request again, so a later response
  or timer has no effect on it.
\<close>

theorem pending_request_settled_once:
  assumes reach: "s = fst (relay_run es0 relay_init)"
      and ext: "chromeExtension s = Some ext"
      and cmd: "m_type msg \<noteq> Some ''connected''" "m_id msg = None" "truthy_string (m_command msg)"
      and quiet: "\<forall>e \<in> set es. \<not> concerns (requestId s + 1) e"
      and resp: "m_type resp \<noteq> Some ''connected''" "m_id resp = Some (requestId s + 1)"
  shows "settle_count rid (snd (relay_run es1 relay_init)) \<le> 1
       \<and> pendingRequests (fst (relay_run (Ws_message ws (Returned msg) # es) s)) (requestId s + 1)
           = Some \<lparr>p_clientWs = ws, p_message = msg\<rparr>
       \<and> (\<exists>s' out1 out2.
            relay_run (Ws_message ws (Returned msg) # es @ Timer_fired (requestId s + 1) # es') s =
              (s', [Set_timeout (requestId s + 1) 30000, Ws_send ext (msg\<lparr>m_id := Some (requestId s + 1)\<rparr>)]
                   @ out1
                   @ [Promise_reject (requestId s + 1) ''Request timeout'', Ws_send ws (timeout_error_frame msg)]
                   @ out2)
            \<and> settle_count (requestId s + 1) out1 = 0
            \<and> settle_count (requestId s + 1) out2 = 0
            \<and> pendingRequests s' (requestId s + 1) = None)
       \<and> (\<exists>s' out1 out2.
            relay_run (Ws_message ws (Returned msg) # es @ Ws_message ws' (Returned resp) # es') s =
              (s', [Set_timeout (requestId s + 1) 30000, Ws_send ext (msg\<lparr>m_id := Some (requestId s + 1)\<rparr>)]
                   @ out1
                   @ [Promise_resolve (requestId s + 1) resp, Ws_send ws resp]
                   @ out2)
            \<and> settle_count (requestId s + 1) out1 = 0
            \<and> settle_count (requestId s + 1) out2 = 0
            \<and> pendingRequests s' (requestId s + 1) = None)"
proof -
  have inv: "ids_issued s"
    unfolding reach by (rule relay_run_ids_issued [OF ids_issued_init])
  have once: "settle_count rid (snd (relay_run es1 relay_init)) \<le> 1"
    using relay_run_settle [OF ids_issued_init, of rid es1] may_settle_le [of rid relay_init]
    by (rule order_trans)
  have timer: "relay_step (Timer_fired (requestId s + 1)) st =
                 (st\<lparr>pendingRequests := (pendingRequests st)(requestId s + 1 := None)\<rparr>,
                  [Promise_reject (requestId s + 1) ''Request timeout'', Ws_send ws (timeout_error_frame msg)])"
    if "pendingRequests st (requestId s + 1) = Some \<lparr>p_clientWs = ws, p_message = msg\<rparr>" for st
    using timer_settles [OF that] by simp
  have answer: "relay_step (Ws_message ws' (Returned resp)) st =
                 (st\<lparr>pendingRequests := (pendingRequests st)(requestId s + 1 := None)\<rparr>,
                  [Promise_resolve (requestId s + 1) resp, Ws_send ws resp])"
    if "pendingRequests st (requestId s + 1) = Some \<lparr>p_clientWs = ws, p_message = msg\<rparr>" for st
    using response_settles [OF that _ resp(2) resp(1), of ws'] by simp
  note a = settled_in_run [where es' = es', OF inv ext cmd quiet timer]
  note b = settled_in_run [where es' = es', OF inv ext cmd quiet answer]
  from once a b show ?thesis by blast
qed

theorem pending_request_settled_once_witness:
  "(\<exists>s' out1 out2.
      relay_run (Ws_message 2 (Returned navigate_frame) # [Ws_close 1, Ws_message 3 (Returned navigate_frame)]
                 @ Timer_fired 1 # [Ws_message 1 (Returned (result_frame 1)), Timer_fired 1]) relay_connected =
        (s', [Set_timeout 1 30000, Ws_send 1 (navigate_frame\<lparr>m_id := Some 1\<rparr>)]
             @ out1
             @ [Promise_reject 1 ''Request timeout'', Ws_send 2 (timeout_error_frame navigate_frame)]
             @ out2)
      \<and> settle_count 1 out1 = 0 \<and> settle_count 1 out2 = 0 \<and> pendingRequests s' 1 = None)
   \<and> relay_run (Ws_message 2 (Returned navigate_frame) # [Ws_close 1, Ws_message 3 (Returned navigate_frame)]
                 @ Timer_fired 1 # [Ws_message 1 (Returned (result_frame 1)), Timer_fired 1]) relay_connected =
        (relay_closed,
         [Set_timeout 1 30000, Ws_send 1 (navigate_frame\<lparr>m_id := Some 1\<rparr>),
          Ws_send 3 (not_connected_frame navigate_frame),
          Promise_reject 1 ''Request timeout'', Ws_send 2 (timeout_error_frame navigate_frame)])
   \<and> relay_run (Ws_message 2 (Returned navigate_frame) # [Ws_close 1, Ws_message 3 (Returned navigate_frame)]
                 @ Ws_message 1 (Returned (result_frame 1)) # [Ws_message 1 (Returned (result_frame 1)), Timer_fired 1])
         relay_connected =
        (relay_closed,
         [Set_timeout 1 30000, Ws_send 1 (navigate_frame\<lparr>m_id := Some 1\<rparr>),
          Ws_send 3 (not_connected_frame navigate_frame),
          Promise_resolve 1 (result_frame 1), Ws_send 2 (result_frame 1)])"
proof -
  have reach: "relay_connected = fst (relay_run [Ws_message 1 (Returned connected_frame)] relay_init)"
    by (simp add: relay_connected_def relay_init_def on_message_def connected_frame_def empty_message_def)
  have ext: "chromeExtension relay_connected = Some 1" by (simp add: relay_connected_def)
  have cmd: "m_type navigate_frame \<noteq> Some ''connected''" "m_id navigate_frame = None"
            "truthy_string (m_command navigate_frame)"
    by (simp_all add: truthy_string_def)
  have n: "requestId relay_connected + 1 = 1" by (simp add: relay_connected_def)
  have quiet: "\<forall>e \<in> set [Ws_close 1, Ws_message 3 (Returned navigate_frame)].
                 \<not> concerns (requestId relay_connected + 1) e"
    by (simp add: relay_connected_def)
  have resp: "m_type (result_frame 1) \<noteq> Some ''connected''"
             "m_id (result_frame 1) = Some (requestId relay_connected + 1)"
    by (simp_all add: relay_connected_def)
  note t = pending_request_settled_once
             [where ws = 2 and es' = "[Ws_message 1 (Returned (result_frame 1)), Timer_fired 1]",
              OF reach ext cmd quiet resp, unfolded n]
  have a: "\<exists>s' out1 out2.
      relay_run (Ws_message 2 (Returned navigate_frame) # [Ws_close 1, Ws_message 3 (Returned navigate_frame)]
                 @ Timer_fired 1 # [Ws_message 1 (Returned (result_frame 1)), Timer_fired 1]) relay_connected =
        (s', [Set_timeout 1 30000, Ws_send 1 (navigate_frame\<lparr>m_id := Some 1\<rparr>)]
             @ out1
             @ [Promise_reject 1 ''Request timeout'', Ws_send 2 (timeout_error_frame navigate_frame)]
             @ out2)
      \<and> settle_count 1 out1 = 0 \<and> settle_count 1 out2 = 0 \<and> pendingRequests s' 1 = None"
    using t by blast
  have tr: "truthy_string (Some ''navigate'')" "\<not> truthy_string None" by (simp_all add: truthy_string_def)
  have b: "relay_run (Ws_message 2 (Returned navigate_frame) # [Ws_close 1, Ws_message 3 (Returned navigate_frame)]
                 @ Timer_fired 1 # [Ws_message 1 (Returned (result_frame 1)), Timer_fired 1]) relay_connected =
        (relay_closed,
         [Set_timeout 1 30000, Ws_send 1 (navigate_frame\<lparr>m_id := Some 1\<rparr>),
          Ws_send 3 (not_connected_frame navigate_frame),
          Promise_reject 1 ''Request timeout'', Ws_send 2 (timeout_error_frame navigate_frame)])"
    by (simp add: relay_connected_def relay_closed_def on_message_def on_close_def on_timeout_def
          handleCommand_def answers_pending_def truthy_nat_def tr Let_def
          not_connected_frame_def timeout_error_frame_def)
  have c: "relay_run (Ws_message 2 (Returned navigate_frame) # [Ws_close 1, Ws_message 3 (Returned navigate_frame)]
                 @ Ws_message 1 (Returned (result_frame 1)) # [Ws_message 1 (Returned (result_frame 1)), Timer_fired 1])
         relay_connected =
        (relay_closed,
         [Set_timeout 1 30000, Ws_send 1 (navigate_frame\<lparr>m_id := Some 1\<rparr>),
          Ws_send 3 (not_connected_frame navigate_frame),
          Promise_resolve 1 (result_frame 1), Ws_send 2 (result_frame 1)])"
    by (simp add: relay_connected_def relay_closed_def on_message_def on_close_def on_timeout_def
          handleCommand_def answers_pending_def truthy_nat_def tr Let_def
          not_connected_frame_def timeout_error_frame_def)
  from a b c show ?thesis by blast
qed

section \<open>Properties of the in-browser endpoint\<close>

lemma stuck_executor_none: "stuck_executor data = None"
proof (cases "cdpEvaluate detaching_browser eval7 bg_init")
  case None
  then show ?thesis by (simp add: stuck_executor_def evaluate_branch_def)
next
  case (Some y)
  from detaching_never_settles [OF this] show ?thesis by simp
qed

text \<open>
  Claim C3, as amended. The endpoint sends at most one response for a frame, and
  exactly one whenever its delegation settles. When the delegation resolves, the
  response carries the id of the command and the reply as its result; a failure of the
  executor arrives that way, because the service worker's listener turns it into a reply
  with an \<open>error\<close> field. When the delegation rejects, or the frame cannot be parsed,
  the response carries the error message and the id \<open>null\<close>. When the executor never
  settles, the listener never replies, the delegation never settles and no response is
  sent.
\<close>

theorem endpoint_answers_once:
  "length (ws_onmessage sendMessage parsed) \<le> 1
   \<and> (sendMessage data = None \<longrightarrow> ws_onmessage sendMessage (Returned data) = [])
   \<and> (sendMessage data = Some (Returned result) \<longrightarrow>
        ws_onmessage sendMessage (Returned data) = [empty_message\<lparr>m_id := m_id data, m_result := Some result\<rparr>])
   \<and> (sendMessage data = Some (Threw m) \<longrightarrow>
        ws_onmessage sendMessage (Returned data) = [empty_message\<lparr>m_id := None, m_error := Some m\<rparr>])
   \<and> ws_onmessage sendMessage (Threw m) = [empty_message\<lparr>m_id := None, m_error := Some m\<rparr>]
   \<and> (executor data = None \<longrightarrow> runtime_sendMessage None executor data = None)
   \<and> (executor data = Some (Returned r) \<longrightarrow> runtime_sendMessage None executor data = Some (Returned r))
   \<and> (executor data = Some (Threw m) \<longrightarrow>
        runtime_sendMessage None executor data = Some (Returned (JObj [(''error'', JStr m)])))
   \<and> runtime_sendMessage (Some m) executor data = Some (Threw m)"
proof -
  have "length (ws_onmessage sendMessage parsed) \<le> 1"
    by (simp add: ws_onmessage_def split: outcome.split option.split)
  then show ?thesis
    by (simp add: ws_onmessage_def runtime_sendMessage_def onMessage_command_def)
qed

theorem endpoint_answers_once_witness:
  "runtime_sendMessage None failing_executor forwarded_frame
        = Some (Returned (JObj [(''error'', JStr ''Unknown command: navigate'')]))
   \<and> ws_onmessage (runtime_sendMessage None failing_executor) (Returned forwarded_frame) =
        [empty_message\<lparr>m_id := Some 5, m_result := Some (JObj [(''error'', JStr ''Unknown command: navigate'')])\<rparr>]
   \<and> runtime_sendMessage (Some no_receiver) failing_executor forwarded_frame = Some (Threw no_receiver)
   \<and> ws_onmessage (runtime_sendMessage (Some no_receiver) failing_executor) (Returned forwarded_frame) =
        [empty_message\<lparr>m_id := None, m_error := Some no_receiver\<rparr>]
   \<and> stuck_executor evaluate_frame = None
   \<and> runtime_sendMessage None stuck_executor evaluate_frame = None
   \<and> ws_onmessage (runtime_sendMessage None stuck_executor) (Returned evaluate_frame) = []"
proof -
  have f: "failing_executor forwarded_frame = Some (Threw ''Unknown command: navigate'')"
    by (simp add: failing_executor_def)
  have i: "m_id forwarded_frame = Some 5" by (simp add: forwarded_frame_def)
  have st: "stuck_executor evaluate_frame = None" by (rule stuck_executor_none)
  note t0 = endpoint_answers_once [of _ _ forwarded_frame _ "''Unknown command: navigate''" failing_executor]
  from t0 f have a: "runtime_sendMessage None failing_executor forwarded_frame
        = Some (Returned (JObj [(''error'', JStr ''Unknown command: navigate'')]))" by blast
  note t1 = endpoint_answers_once [of "runtime_sendMessage None failing_executor" _
              forwarded_frame "JObj [(''error'', JStr ''Unknown command: navigate'')]", unfolded i]
  from t1 a have a': "ws_onmessage (runtime_sendMessage None failing_executor) (Returned forwarded_frame) =
        [empty_message\<lparr>m_id := Some 5, m_result := Some (JObj [(''error'', JStr ''Unknown command: navigate'')])\<rparr>]"
    by blast
  note t2 = endpoint_answers_once [of "runtime_sendMessage (Some no_receiver) failing_executor" _
              forwarded_frame _ no_receiver failing_executor]
  from t2 have b: "runtime_sendMessage (Some no_receiver) failing_executor forwarded_frame = Some (Threw no_receiver)"
    by blast
  from t2 b have b': "ws_onmessage (runtime_sendMessage (Some no_receiver) failing_executor) (Returned forwarded_frame) =
        [empty_message\<lparr>m_id := None, m_error := Some no_receiver\<rparr>]" by blast
  note t3 = endpoint_answers_once [of "runtime_sendMessage None stuck_executor" _ evaluate_frame _ _ stuck_executor]
  from t3 st have c: "runtime_sendMessage None stuck_executor evaluate_frame = None" by blast
  from t3 c have c': "ws_onmessage (runtime_sendMessage None stuck_executor) (Returned evaluate_frame) = []" by blast
  from a a' b b' st c c' show ?thesis by blast
qed

text \<open>
  The claim as stated fails twice: the command with id 5 whose delegation rejects is
  answered without its id, and the \<open>evaluate\<close> command whose executor retries forever is
  not answered at all.
\<close>

theorem endpoint_response_counterexample:
  "m_id forwarded_frame = Some 5
   \<and> map m_id (ws_onmessage (runtime_sendMessage (Some no_receiver) failing_executor) (Returned forwarded_frame))
       = [None]
   \<and> ws_onmessage (runtime_sendMessage None stuck_executor) (Returned evaluate_frame) = []"
proof -
  have "stuck_executor evaluate_frame = None" by (rule stuck_executor_none)
  then show ?thesis
    by (simp add: forwarded_frame_def ws_onmessage_def runtime_sendMessage_def onMessage_command_def empty_message_def)
qed

end
